theory Spec2Isabelle
  imports Main "HOL-Library.Word" "HOL-Library.Monad_Syntax"
begin

unbundle bit_operations_syntax

section \<open>Board types\<close>

text \<open>
  The header with the chess types is not part of the sources at hand; the enumerations
  below follow the data model of the specification: colours White and Black with the
  sentinel NoPlayer, piece types in the fixed order King, Queen, Bishop, Knight, Rook,
  Pawn, then the slot AllPieces of the bitboard array and the sentinel NoType.
  A field is a number 0..63 (A1 = 0, B1 = 1, .., H8 = 63) and ERR = 64 is "no field".
\<close>

datatype PlayerColor = White | Black | NoPlayer

datatype PieceType = King | Queen | Bishop | Knight | Rook | Pawn | AllPieces | NoType

record Piece =
  player :: PlayerColor
  type :: PieceType

type_synonym Field = nat

definition ERR :: Field where
  "ERR = 64"

text \<open>Modelled from the spec: \<open>rank(f) = f / 8\<close> and \<open>file(f) = f % 8\<close>.\<close>

definition rankFor :: "Field \<Rightarrow> nat" where
  "rankFor f = f div 8"

definition fileFor :: "Field \<Rightarrow> nat" where
  "fileFor f = f mod 8"

text \<open>
  Modelled from the spec: \<open>toggle(c)\<close> yields the opponent. The form is the one
  \<open>calcMoveTurns\<close> writes inline for the same purpose.
\<close>

definition togglePlayerColor :: "PlayerColor \<Rightarrow> PlayerColor" where
  "togglePlayerColor c = (if c = White then Black else White)"

datatype TurnAction =
  Move | Castle | PromotionQueen | PromotionBishop | PromotionRook | PromotionKnight
  | Pass | Forfeit

text \<open>A turn is the record \<open>{piece, from, to, action}\<close> of the specification.\<close>

record Turn =
  piece :: Piece
  from_field :: Field
  to_field :: Field
  action :: TurnAction

definition mk_turn :: "TurnAction \<Rightarrow> Piece \<Rightarrow> Field \<Rightarrow> Field \<Rightarrow> Turn" where
  "mk_turn a p f t = \<lparr>piece = p, from_field = f, to_field = t, action = a\<rparr>"

section \<open>Bitboard kernel\<close>

type_synonym BitBoard = "64 word"

text \<open>
  \<open>BB_SCAN\<close> is \<open>63 - __builtin_clzll(bb)\<close>: the index of the most significant set
  bit. The source asserts \<open>bb != 0\<close>; every caller in the turn generator guards the
  call with that test. The search below runs from bit 63 downwards.
\<close>

fun msb_from :: "nat \<Rightarrow> BitBoard \<Rightarrow> nat" where
  "msb_from 0 bb = 0"
| "msb_from (Suc n) bb = (if bit bb (Suc n) then Suc n else msb_from n bb)"

definition BB_SCAN :: "BitBoard \<Rightarrow> Field" where
  "BB_SCAN bb = msb_from 63 bb"

definition BIT_SET :: "BitBoard \<Rightarrow> nat \<Rightarrow> BitBoard" where
  "BIT_SET bb field = bb OR push_bit field 1"

definition BIT_CLEAR :: "BitBoard \<Rightarrow> nat \<Rightarrow> BitBoard" where
  "BIT_CLEAR bb field = bb AND NOT (push_bit field 1)"

definition BIT_ISSET :: "BitBoard \<Rightarrow> nat \<Rightarrow> BitBoard" where
  "BIT_ISSET bb field = bb AND push_bit field 1"

text \<open>
  \<open>generateBitBoard(f1, ..., ERR)\<close> is declared in the board header only; from its use
  in the castling tests it is the bitboard with exactly the listed fields set.
  Modelled from the spec: a bitboard is the bit set of its fields.
\<close>

definition generateBitBoard :: "Field list \<Rightarrow> BitBoard" where
  "generateBitBoard fs = fold (\<lambda>f bb. BIT_SET bb f) fs 0"

text \<open>
  The shifts \<open><<\<close> and \<open>>>\<close> of a 64-bit value by an \<open>int\<close> count. C++ defines them
  for counts 0..63 only; the total model below takes the mathematical shift for larger
  counts (all bits leave the word). The checked variants further down make the
  undefined counts visible.
\<close>

definition shl :: "BitBoard \<Rightarrow> int \<Rightarrow> BitBoard" where
  "shl bb n = push_bit (nat n) bb"

definition shr :: "BitBoard \<Rightarrow> int \<Rightarrow> BitBoard" where
  "shr bb n = drop_bit (nat n) bb"

definition maskRank :: "nat \<Rightarrow> BitBoard" where
  "maskRank rank = shl 0x00000000000000FF (int rank * 8)"

definition clearRank :: "nat \<Rightarrow> BitBoard" where
  "clearRank rank = NOT (maskRank rank)"

definition maskFile :: "nat \<Rightarrow> BitBoard" where
  "maskFile file = shl 0x0101010101010101 (int file)"

definition clearFile :: "nat \<Rightarrow> BitBoard" where
  "clearFile file = NOT (maskFile file)"

text \<open>Files A..H are 0..7, ranks One..Eight are 0..7.\<close>

definition fileMaskLoop :: "nat \<Rightarrow> nat \<Rightarrow> BitBoard" where
  "fileMaskLoop lo hi = fold (\<lambda>i bbMask. bbMask OR maskFile i) [lo ..< hi] 0"

definition getBitsNE :: "BitBoard \<Rightarrow> BitBoard" where
  "getBitsNE bbPiece =
     (let field = int (BB_SCAN bbPiece);
          bb = shl 0x8040201008040200 field;
          bbMask = fileMaskLoop (nat (field mod 8) + 1) 8
      in bb AND bbMask)"

definition getBitsNW :: "BitBoard \<Rightarrow> BitBoard" where
  "getBitsNW bbPiece =
     (let field = int (BB_SCAN bbPiece);
          shift = field - 7;
          bb = (if shift < 0 then shr 0x0102040810204000 (shift * (-1))
                else shl 0x0102040810204000 shift);
          bbMask = fileMaskLoop 0 (nat (field mod 8))
      in bb AND bbMask)"

definition getBitsSE :: "BitBoard \<Rightarrow> BitBoard" where
  "getBitsSE bbPiece =
     (let field = int (BB_SCAN bbPiece);
          shift = 56 - field;
          bb = (if shift < 0 then shl 0x0002040810204080 (shift * (-1))
                else shr 0x0002040810204080 shift);
          bbMask = fileMaskLoop (nat (field mod 8) + 1) 8
      in bb AND bbMask)"

definition getBitsSW :: "BitBoard \<Rightarrow> BitBoard" where
  "getBitsSW bbPiece =
     (let field = int (BB_SCAN bbPiece);
          bb = shr 0x0040201008040201 (64 - (field + 1));
          bbMask = fileMaskLoop 0 (nat (field mod 8))
      in bb AND bbMask)"

definition getBitsE :: "BitBoard \<Rightarrow> BitBoard" where
  "getBitsE bbPiece =
     (let field = int (BB_SCAN bbPiece);
          shift = 56 - field;
          bb = (if shift > 0 then shr 0xFE00000000000000 shift
                else shl 0xFE00000000000000 (shift * (-1)))
      in bb AND maskRank (nat (field div 8)))"

definition getBitsW :: "BitBoard \<Rightarrow> BitBoard" where
  "getBitsW bbPiece =
     (let field = int (BB_SCAN bbPiece);
          bb = shr 0xFE00000000000000 (64 - field)
      in bb AND maskRank (nat (field div 8)))"

definition getBitsN :: "BitBoard \<Rightarrow> BitBoard" where
  "getBitsN bbPiece =
     (let field = int (BB_SCAN bbPiece);
          bb = shl 0x0101010101010100 field
      in bb)"

definition getBitsS :: "BitBoard \<Rightarrow> BitBoard" where
  "getBitsS bbPiece =
     (let field = int (BB_SCAN bbPiece);
          bb = shr 0x0080808080808080 (64 - (field + 1))
      in bb)"


lemma msb_from_bit: "\<exists>i\<le>n. 0 < i \<and> bit bb i \<Longrightarrow> bit bb (msb_from n bb)"
proof (induction n)
  case 0
  then show ?case by simp
next
  case (Suc n)
  then show ?case by (auto simp: le_Suc_eq)
qed

lemma msb_from_le: "msb_from n bb \<le> n"
  by (induction n) auto

lemma BB_SCAN_le: "BB_SCAN bb \<le> 63"
  by (simp add: BB_SCAN_def msb_from_le)

lemma BB_SCAN_bit: "bb \<noteq> 0 \<Longrightarrow> bit bb (BB_SCAN bb)"
proof -
  assume nz: "bb \<noteq> 0"
  then obtain i where i: "bit bb i"
    by (auto simp: bit_eq_iff)
  then have i64: "i < 64"
    using bit_imp_le_length [of bb i] by simp
  show ?thesis
  proof (cases "\<exists>j\<le>63. 0 < j \<and> bit bb j")
    case True
    then show ?thesis
      unfolding BB_SCAN_def by (rule msb_from_bit)
  next
    case False
    have "\<not> (i \<le> 63 \<and> 0 < i \<and> bit bb i)"
      using False by blast
    with i i64 have "i = 0"
      by simp
    moreover from False have "msb_from 63 bb = 0"
    proof -
      have "\<And>n. \<not> (\<exists>j\<le>n. 0 < j \<and> bit bb j) \<Longrightarrow> msb_from n bb = 0"
      proof -
        fix n show "\<not> (\<exists>j\<le>n. 0 < j \<and> bit bb j) \<Longrightarrow> msb_from n bb = 0"
          by (induction n) auto
      qed
      with False show ?thesis by blast
    qed
    ultimately show ?thesis
      using i by (simp add: BB_SCAN_def)
  qed
qed

lemma BIT_CLEAR_less: "bb \<noteq> 0 \<Longrightarrow> BIT_CLEAR bb (BB_SCAN bb) < bb"
proof -
  assume nz: "bb \<noteq> 0"
  let ?f = "BB_SCAN bb"
  have le: "BIT_CLEAR bb ?f \<le> bb"
    unfolding BIT_CLEAR_def by (rule word_and_le2)
  have "\<not> bit (BIT_CLEAR bb ?f) ?f"
    by (simp add: BIT_CLEAR_def bit_simps)
  with BB_SCAN_bit [OF nz] have "BIT_CLEAR bb ?f \<noteq> bb"
    by metis
  with le show ?thesis by simp
qed

lemma BIT_CLEAR_measure: "bb \<noteq> 0 \<Longrightarrow> unat (BIT_CLEAR bb (BB_SCAN bb)) < unat bb"
  using BIT_CLEAR_less [of bb] by (simp add: word_less_nat_alt)


section \<open>Chess board\<close>

text \<open>
  The part of \<open>ChessBoard\<close> the turn generator reads and writes: the bitboards
  \<open>m_bb[player][type]\<close>, the castling rights, the en-passant square and the flags
  \<open>m_kingInCheck\<close>, \<open>m_checkmate\<close>, \<open>m_stalemate\<close>. Arrays indexed by an
  enumeration are functions on it.
\<close>

record ChessBoard =
  m_bb :: "PlayerColor \<Rightarrow> PieceType \<Rightarrow> BitBoard"
  m_shortCastleRight :: "PlayerColor \<Rightarrow> bool"
  m_longCastleRight :: "PlayerColor \<Rightarrow> bool"
  m_enPassantSquare :: Field
  m_kingInCheck :: "PlayerColor \<Rightarrow> bool"
  m_checkmate :: "PlayerColor \<Rightarrow> bool"
  m_stalemate :: bool

text \<open>
  The bodies of the three setters are in the board's implementation file, which is not
  among the sources. Modelled from the spec: \<open>kingInCheck[2]\<close>, \<open>checkmate[2]\<close>,
  \<open>stalemate\<close> are flags set by the move generator; each setter writes its flag.
\<close>

definition setKingInCheck :: "PlayerColor \<Rightarrow> bool \<Rightarrow> ChessBoard \<Rightarrow> ChessBoard" where
  "setKingInCheck p b cb = cb\<lparr>m_kingInCheck := (m_kingInCheck cb)(p := b)\<rparr>"

definition setCheckmate :: "PlayerColor \<Rightarrow> bool \<Rightarrow> ChessBoard \<Rightarrow> ChessBoard" where
  "setCheckmate p b cb = cb\<lparr>m_checkmate := (m_checkmate cb)(p := b)\<rparr>"

definition setStalemate :: "bool \<Rightarrow> ChessBoard \<Rightarrow> ChessBoard" where
  "setStalemate b cb = cb\<lparr>m_stalemate := b\<rparr>"

section \<open>Turn generator\<close>

text \<open>The fields the generator names, in the layout A1 = 0, .., H8 = 63.\<close>

abbreviation B1 :: Field where "B1 \<equiv> 1"
abbreviation C1 :: Field where "C1 \<equiv> 2"
abbreviation D1 :: Field where "D1 \<equiv> 3"
abbreviation E1 :: Field where "E1 \<equiv> 4"
abbreviation F1 :: Field where "F1 \<equiv> 5"
abbreviation G1 :: Field where "G1 \<equiv> 6"
abbreviation B8 :: Field where "B8 \<equiv> 57"
abbreviation C8 :: Field where "C8 \<equiv> 58"
abbreviation D8 :: Field where "D8 \<equiv> 59"
abbreviation E8 :: Field where "E8 \<equiv> 60"
abbreviation F8 :: Field where "F8 \<equiv> 61"
abbreviation G8 :: Field where "G8 \<equiv> 62"

definition calcShortCastleTurns :: "PlayerColor \<Rightarrow> BitBoard \<Rightarrow> BitBoard \<Rightarrow> BitBoard" where
  "calcShortCastleTurns p bbAllPieces bbAllOppTurns =
     (if p = White then
        (if (bbAllOppTurns AND generateBitBoard [E1, F1, G1]) = 0
            \<and> BIT_ISSET bbAllPieces G1 = 0 \<and> BIT_ISSET bbAllPieces F1 = 0
         then BIT_SET 0 G1 else 0)
      else
        (if (bbAllOppTurns AND generateBitBoard [E8, F8, G8]) = 0
            \<and> BIT_ISSET bbAllPieces G8 = 0 \<and> BIT_ISSET bbAllPieces F8 = 0
         then BIT_SET 0 G8 else 0))"

definition calcLongCastleTurns :: "PlayerColor \<Rightarrow> BitBoard \<Rightarrow> BitBoard \<Rightarrow> BitBoard" where
  "calcLongCastleTurns p bbAllPieces bbAllOppTurns =
     (if p = White then
        (if (bbAllOppTurns AND generateBitBoard [E1, D1, C1]) = 0
            \<and> BIT_ISSET bbAllPieces D1 = 0 \<and> BIT_ISSET bbAllPieces C1 = 0
            \<and> BIT_ISSET bbAllPieces B1 = 0
         then BIT_SET 0 C1 else 0)
      else
        (if (bbAllOppTurns AND generateBitBoard [E8, D8, C8]) = 0
            \<and> BIT_ISSET bbAllPieces D8 = 0 \<and> BIT_ISSET bbAllPieces C8 = 0
            \<and> BIT_ISSET bbAllPieces B8 = 0
         then BIT_SET 0 C8 else 0))"

definition calcKingTurns :: "BitBoard \<Rightarrow> BitBoard \<Rightarrow> BitBoard \<Rightarrow> BitBoard" where
  "calcKingTurns king allOwnPieces allOppTurns =
     (let turn1 = shl (king AND clearFile 7) 9;
          turn2 = shl king 8;
          turn3 = shl (king AND clearFile 0) 7;
          turn4 = shl (king AND clearFile 7) 1;
          turn5 = shr (king AND clearFile 0) 1;
          turn6 = shr (king AND clearFile 7) 7;
          turn7 = shr king 8;
          turn8 = shr (king AND clearFile 0) 9;
          kingTurns = turn1 OR turn2 OR turn3 OR turn4 OR turn5 OR turn6 OR turn7 OR turn8;
          kingTurns = kingTurns AND NOT allOwnPieces;
          kingTurns = kingTurns XOR (allOppTurns AND kingTurns)
      in kingTurns)"

definition calcKnightTurns :: "BitBoard \<Rightarrow> BitBoard \<Rightarrow> BitBoard" where
  "calcKnightTurns knights allOwnPieces =
     (let turn1 = shl (knights AND (clearFile 0 AND clearFile 1)) 6;
          turn2 = shl (knights AND clearFile 0) 15;
          turn3 = shl (knights AND clearFile 7) 17;
          turn4 = shl (knights AND (clearFile 7 AND clearFile 6)) 10;
          turn5 = shr (knights AND (clearFile 7 AND clearFile 6)) 6;
          turn6 = shr (knights AND clearFile 7) 15;
          turn7 = shr (knights AND clearFile 0) 17;
          turn8 = shr (knights AND (clearFile 0 AND clearFile 1)) 10;
          knightTurns = turn1 OR turn2 OR turn3 OR turn4 OR turn5 OR turn6 OR turn7 OR turn8
      in knightTurns AND NOT allOwnPieces)"

definition calcPawnMoveTurns :: "BitBoard \<Rightarrow> BitBoard \<Rightarrow> PlayerColor \<Rightarrow> BitBoard" where
  "calcPawnMoveTurns pawns allPieces p =
     (let oneStep =
            (if p = White then shl pawns 8 AND NOT allPieces
             else if p = Black then shr pawns 8 AND NOT allPieces
             else 0);
          twoSteps =
            (if p = White then shl (oneStep AND maskRank 2) 8 AND NOT allPieces
             else if p = Black then shr (oneStep AND maskRank 5) 8 AND NOT allPieces
             else 0)
      in oneStep OR twoSteps)"

definition calcPawnAttackTurns ::
    "BitBoard \<Rightarrow> BitBoard \<Rightarrow> PlayerColor \<Rightarrow> Field \<Rightarrow> BitBoard" where
  "calcPawnAttackTurns pawns allOppPieces p enPassantSquare =
     (let leftAttacks =
            (if p = White then shl (pawns AND clearFile 0) 7
             else if p = Black then shr (pawns AND clearFile 0) 9
             else 0);
          rightAttacks =
            (if p = White then shl (pawns AND clearFile 7) 9
             else if p = Black then shr (pawns AND clearFile 7) 7
             else 0);
          allOppPieces =
            (if enPassantSquare \<noteq> ERR then BIT_SET allOppPieces enPassantSquare
             else allOppPieces)
      in (leftAttacks OR rightAttacks) AND allOppPieces)"

definition calcPawnTurns ::
    "BitBoard \<Rightarrow> BitBoard \<Rightarrow> BitBoard \<Rightarrow> PlayerColor \<Rightarrow> Field \<Rightarrow> BitBoard" where
  "calcPawnTurns pawns allOppPieces allPieces p enPassantSquare =
     (calcPawnMoveTurns pawns allPieces p OR
      calcPawnAttackTurns pawns allOppPieces p enPassantSquare)"

text \<open>
  One ray of a sliding piece: the blockers on the ray are smeared away from the piece
  by the listed shift distances, the smear is removed from the ray, and what is left is
  restricted to enemy pieces and empty fields.
\<close>

definition slideUp :: "BitBoard \<Rightarrow> int list \<Rightarrow> BitBoard \<Rightarrow> BitBoard \<Rightarrow> BitBoard" where
  "slideUp bbRay steps allOppPieces allPieces =
     (let moves = bbRay AND allPieces;
          moves = fold (\<lambda>k acc. acc OR shl moves k) steps 0;
          moves = moves AND bbRay;
          moves = moves XOR bbRay
      in moves AND (allOppPieces OR NOT allPieces))"

definition slideDown :: "BitBoard \<Rightarrow> int list \<Rightarrow> BitBoard \<Rightarrow> BitBoard \<Rightarrow> BitBoard" where
  "slideDown bbRay steps allOppPieces allPieces =
     (let moves = bbRay AND allPieces;
          moves = fold (\<lambda>k acc. acc OR shr moves k) steps 0;
          moves = moves AND bbRay;
          moves = moves XOR bbRay
      in moves AND (allOppPieces OR NOT allPieces))"

definition calcBishopTurns :: "BitBoard \<Rightarrow> BitBoard \<Rightarrow> BitBoard \<Rightarrow> BitBoard" where
  "calcBishopTurns bishops allOppPieces allPieces =
     (let neMoves = slideUp (getBitsNE bishops) [9, 18, 27, 36, 45, 54] allOppPieces allPieces;
          nwMoves = slideUp (getBitsNW bishops) [7, 14, 21, 28, 35, 42] allOppPieces allPieces;
          seMoves = slideDown (getBitsSE bishops) [7, 14, 21, 28, 35, 42] allOppPieces allPieces;
          swMoves = slideDown (getBitsSW bishops) [9, 18, 27, 36, 45, 54] allOppPieces allPieces
      in neMoves OR nwMoves OR seMoves OR swMoves)"

definition calcRookTurns :: "BitBoard \<Rightarrow> BitBoard \<Rightarrow> BitBoard \<Rightarrow> BitBoard" where
  "calcRookTurns rooks allOppPieces allPieces =
     (let eastMoves = slideUp (getBitsE rooks) [1, 2, 3, 4, 5, 6, 7] allOppPieces allPieces;
          westMoves = slideDown (getBitsW rooks) [1, 2, 3, 4, 5, 6, 7] allOppPieces allPieces;
          northMoves = slideUp (getBitsN rooks) [8, 16, 24, 32, 40, 48, 56] allOppPieces allPieces;
          southMoves = slideDown (getBitsS rooks) [8, 16, 24, 32, 40, 48, 56] allOppPieces allPieces
      in eastMoves OR westMoves OR northMoves OR southMoves)"

definition calcQueenTurns :: "BitBoard \<Rightarrow> BitBoard \<Rightarrow> BitBoard \<Rightarrow> BitBoard" where
  "calcQueenTurns queens allOppPieces allPieces =
     (calcRookTurns queens allOppPieces allPieces OR
      calcBishopTurns queens allOppPieces allPieces)"

definition calcMoveTurns :: "Piece \<Rightarrow> BitBoard \<Rightarrow> BitBoard \<Rightarrow> ChessBoard \<Rightarrow> BitBoard" where
  "calcMoveTurns pc bbPiece bbAllOppTurns cb =
     (let opp = (if player pc = White then Black else White) in
      case type pc of
        King \<Rightarrow> calcKingTurns bbPiece (m_bb cb (player pc) AllPieces) bbAllOppTurns
      | Queen \<Rightarrow> calcQueenTurns bbPiece (m_bb cb opp AllPieces)
                   (m_bb cb (player pc) AllPieces OR m_bb cb opp AllPieces)
      | Bishop \<Rightarrow> calcBishopTurns bbPiece (m_bb cb opp AllPieces)
                   (m_bb cb (player pc) AllPieces OR m_bb cb opp AllPieces)
      | Knight \<Rightarrow> calcKnightTurns bbPiece (m_bb cb (player pc) AllPieces)
      | Rook \<Rightarrow> calcRookTurns bbPiece (m_bb cb opp AllPieces)
                   (m_bb cb (player pc) AllPieces OR m_bb cb opp AllPieces)
      | Pawn \<Rightarrow> calcPawnTurns bbPiece (m_bb cb opp AllPieces)
                   (m_bb cb (player pc) AllPieces OR m_bb cb opp AllPieces)
                   (player pc) (m_enPassantSquare cb)
      | _ \<Rightarrow> 0)"


text \<open>
  \<open>bitBoardToTurns\<close>: the fields of \<open>bbTurns\<close> from the most significant bit down; a
  pawn reaching rank Eight or One gives the four promotions in the order queen, bishop,
  rook, knight, every other destination a plain move.
\<close>

definition turnsTo :: "Piece \<Rightarrow> Field \<Rightarrow> Field \<Rightarrow> Turn list" where
  "turnsTo pc from to =
     (if (rankFor to = 7 \<or> rankFor to = 0) \<and> type pc = Pawn
      then [mk_turn PromotionQueen pc from to, mk_turn PromotionBishop pc from to,
            mk_turn PromotionRook pc from to, mk_turn PromotionKnight pc from to]
      else [mk_turn Move pc from to])"

function bitBoardToTurnsLoop :: "Piece \<Rightarrow> Field \<Rightarrow> BitBoard \<Rightarrow> Turn list \<Rightarrow> Turn list" where
  "bitBoardToTurnsLoop pc from bbTurns turns =
     (if bbTurns = 0 then turns
      else bitBoardToTurnsLoop pc from (BIT_CLEAR bbTurns (BB_SCAN bbTurns))
             (turns @ turnsTo pc from (BB_SCAN bbTurns)))"
  by pat_completeness auto
termination
  by (relation "measure (\<lambda>(pc, from, bbTurns, turns). unat bbTurns)")
     (auto simp: BIT_CLEAR_measure)

definition bitBoardToTurns :: "Piece \<Rightarrow> Field \<Rightarrow> BitBoard \<Rightarrow> Turn list" where
  "bitBoardToTurns pc from bbTurns = bitBoardToTurnsLoop pc from bbTurns []"

text \<open>The order of the loops \<open>for (pieceType = King; pieceType <= Pawn; pieceType++)\<close>.\<close>

definition pieceTypes :: "PieceType list" where
  "pieceTypes = [King, Queen, Bishop, Knight, Rook, Pawn]"

subsection \<open>The fields that resolve a check\<close>

text \<open>
  The sliding-piece branch of \<open>calcUnCheckFields\<close>: distance and direction from the
  checking piece to the king, in the source's \<open>int\<close> arithmetic with the initial
  value \<open>-10\<close> of all three variables, then the fields \<open>1..dist\<close> steps away and the
  piece's own field.
\<close>

definition unCheckDir :: "Field \<Rightarrow> Field \<Rightarrow> int \<times> int \<times> int" where
  "unCheckDir kingPos curPiecePos =
     (let kingRank = int (rankFor kingPos); kingFile = int (fileFor kingPos);
          pieceRank = int (rankFor curPiecePos); pieceFile = int (fileFor curPiecePos)
      in if kingRank < pieceRank then
           (pieceRank - kingRank - 1, -1,
            if kingFile < pieceFile then -1 else if kingFile = pieceFile then 0 else 1)
         else if kingRank = pieceRank then
           (if kingFile < pieceFile then (pieceFile - kingFile - 1, 0, -1)
            else if kingFile > pieceFile then (kingFile - pieceFile - 1, 0, 1)
            else (-10, 0, -10))
         else
           (kingRank - pieceRank - 1, 1,
            if kingFile < pieceFile then -1 else if kingFile = pieceFile then 0 else 1))"

definition unCheckSliding :: "BitBoard \<Rightarrow> Field \<Rightarrow> BitBoard" where
  "unCheckSliding bbKing curPiecePos =
     (let kingPos = (if bbKing \<noteq> 0 then BB_SCAN bbKing else ERR);
          (dist, rankSign, fileSign) = unCheckDir kingPos curPiecePos;
          pieceRank = int (rankFor curPiecePos); pieceFile = int (fileFor curPiecePos);
          bbUnCheckFields =
            fold (\<lambda>i bb. BIT_SET bb (nat ((pieceRank + i * rankSign) * 8
                                            + (pieceFile + i * fileSign))))
              [1 .. dist] 0
      in BIT_SET bbUnCheckFields curPiecePos)"

text \<open>
  The body of the inner loop for the piece on \<open>curPiecePos\<close>: \<open>Some\<close> of the returned
  bitboard when the piece attacks the king, \<open>None\<close> when the loop goes on.
\<close>

definition unCheckBody ::
    "PlayerColor \<Rightarrow> ChessBoard \<Rightarrow> PieceType \<Rightarrow> Field \<Rightarrow> BitBoard option" where
  "unCheckBody opp cb pieceType curPiecePos =
     (let p = togglePlayerColor opp;
          bbCurPiece = BIT_SET 0 curPiecePos;
          bbTurns = calcMoveTurns \<lparr>player = opp, type = pieceType\<rparr> bbCurPiece 0 cb;
          bbKingInCheck = m_bb cb p King AND bbTurns
      in if bbKingInCheck = m_bb cb p King then
           (if pieceType = Pawn \<or> pieceType = Knight \<or> pieceType = King
            then Some (BIT_SET 0 curPiecePos)
            else Some (unCheckSliding (m_bb cb p King) curPiecePos))
         else None)"

function unCheckLoop ::
    "PlayerColor \<Rightarrow> ChessBoard \<Rightarrow> PieceType \<Rightarrow> BitBoard \<Rightarrow> BitBoard option" where
  "unCheckLoop opp cb pieceType bbCurPieceType =
     (if bbCurPieceType = 0 then None
      else case unCheckBody opp cb pieceType (BB_SCAN bbCurPieceType) of
             Some r \<Rightarrow> Some r
           | None \<Rightarrow> unCheckLoop opp cb pieceType
                       (BIT_CLEAR bbCurPieceType (BB_SCAN bbCurPieceType)))"
  by pat_completeness auto
termination
  by (relation "measure (\<lambda>(opp, cb, pieceType, bb). unat bb)")
     (auto simp: BIT_CLEAR_measure)

fun unCheckTypes :: "PlayerColor \<Rightarrow> ChessBoard \<Rightarrow> PieceType list \<Rightarrow> BitBoard" where
  "unCheckTypes opp cb [] = 0"
| "unCheckTypes opp cb (pieceType # rest) =
     (case unCheckLoop opp cb pieceType (m_bb cb opp pieceType) of
        Some r \<Rightarrow> r
      | None \<Rightarrow> unCheckTypes opp cb rest)"

definition calcUnCheckFields :: "PlayerColor \<Rightarrow> ChessBoard \<Rightarrow> BitBoard" where
  "calcUnCheckFields opp cb = unCheckTypes opp cb pieceTypes"


subsection \<open>The fields the opponent attacks\<close>

function slidingOppLoop ::
    "PieceType \<Rightarrow> BitBoard \<Rightarrow> BitBoard \<Rightarrow> BitBoard \<Rightarrow> BitBoard \<Rightarrow> BitBoard" where
  "slidingOppLoop pieceType bbOwnNoKing bbAllNoKing bbCurPieceType bbAllOppTurns =
     (if bbCurPieceType = 0 then bbAllOppTurns
      else
        slidingOppLoop pieceType bbOwnNoKing bbAllNoKing
          (BIT_CLEAR bbCurPieceType (BB_SCAN bbCurPieceType))
          (bbAllOppTurns OR
            (if pieceType = Rook then
               calcRookTurns (BIT_SET 0 (BB_SCAN bbCurPieceType)) bbOwnNoKing bbAllNoKing
             else if pieceType = Queen then
               calcQueenTurns (BIT_SET 0 (BB_SCAN bbCurPieceType)) bbOwnNoKing bbAllNoKing
             else if pieceType = Bishop then
               calcBishopTurns (BIT_SET 0 (BB_SCAN bbCurPieceType)) bbOwnNoKing bbAllNoKing
             else 0)))"
  by pat_completeness auto
termination
  by (relation "measure (\<lambda>(pieceType, own, all, bb, acc). unat bb)")
     (auto simp: BIT_CLEAR_measure)

definition oppTurnsOfType ::
    "PlayerColor \<Rightarrow> ChessBoard \<Rightarrow> PieceType \<Rightarrow> BitBoard \<Rightarrow> BitBoard" where
  "oppTurnsOfType opp cb pieceType bbAllOppTurns =
     (let p = togglePlayerColor opp;
          bbAllPieces = m_bb cb White AllPieces OR m_bb cb Black AllPieces;
          bbAllOppPiecesWhitoutKing = m_bb cb p AllPieces XOR m_bb cb p King;
          bbAllPiecesWhitoutKing = bbAllPieces XOR m_bb cb p King;
          bbCurPieceType = m_bb cb opp pieceType
      in if pieceType = Pawn then
           bbAllOppTurns OR
             calcPawnAttackTurns bbCurPieceType 0xFFFFFFFFFFFFFFFF opp (m_enPassantSquare cb)
         else if pieceType = King then
           bbAllOppTurns OR calcKingTurns bbCurPieceType 0 0
         else if pieceType = Knight then
           bbAllOppTurns OR calcKnightTurns bbCurPieceType 0
         else
           slidingOppLoop pieceType bbAllOppPiecesWhitoutKing bbAllPiecesWhitoutKing
             bbCurPieceType bbAllOppTurns)"

definition calcAllOppTurns :: "PlayerColor \<Rightarrow> ChessBoard \<Rightarrow> BitBoard" where
  "calcAllOppTurns opp cb =
     (let bbAllPieces = m_bb cb White AllPieces OR m_bb cb Black AllPieces;
          bbAllOppTurns = 0;
          bbAllOppTurns =
            (if m_shortCastleRight cb opp
             then bbAllOppTurns OR calcShortCastleTurns opp bbAllPieces 0
             else bbAllOppTurns);
          bbAllOppTurns =
            (if m_longCastleRight cb opp
             then bbAllOppTurns OR calcLongCastleTurns opp bbAllPieces 0
             else bbAllOppTurns)
      in fold (oppTurnsOfType opp cb) pieceTypes bbAllOppTurns)"

subsection \<open>generateTurns\<close>

text \<open>
  The two piece loops of \<open>generateTurns\<close>. In the branch for a king in check the turns
  of every piece but the king are intersected with \<open>bbUnCheckFields\<close>; the other branch
  has no mask.
\<close>

function checkedPieceLoop ::
    "Piece \<Rightarrow> BitBoard \<Rightarrow> BitBoard \<Rightarrow> ChessBoard \<Rightarrow> BitBoard \<Rightarrow> Turn list \<Rightarrow> Turn list" where
  "checkedPieceLoop pc bbAllOppTurns bbUnCheckFields cb bbCurPieceType turnList =
     (if bbCurPieceType = 0 then turnList
      else
        let curPiecePos = BB_SCAN bbCurPieceType;
            bbTurns = calcMoveTurns pc (BIT_SET 0 curPiecePos) bbAllOppTurns cb;
            bbTurns = (if type pc \<noteq> King then bbTurns AND bbUnCheckFields else bbTurns)
        in checkedPieceLoop pc bbAllOppTurns bbUnCheckFields cb
             (BIT_CLEAR bbCurPieceType (BB_SCAN bbCurPieceType))
             (turnList @ bitBoardToTurns pc curPiecePos bbTurns))"
  by pat_completeness auto
termination
  by (relation "measure (\<lambda>(pc, opp, un, cb, bb, ts). unat bb)")
     (auto simp: BIT_CLEAR_measure)

function pieceLoop ::
    "Piece \<Rightarrow> BitBoard \<Rightarrow> ChessBoard \<Rightarrow> BitBoard \<Rightarrow> Turn list \<Rightarrow> Turn list" where
  "pieceLoop pc bbAllOppTurns cb bbCurPieceType turnList =
     (if bbCurPieceType = 0 then turnList
      else
        let curPiecePos = BB_SCAN bbCurPieceType;
            bbTurns = calcMoveTurns pc (BIT_SET 0 curPiecePos) bbAllOppTurns cb
        in pieceLoop pc bbAllOppTurns cb
             (BIT_CLEAR bbCurPieceType (BB_SCAN bbCurPieceType))
             (turnList @ bitBoardToTurns pc curPiecePos bbTurns))"
  by pat_completeness auto
termination
  by (relation "measure (\<lambda>(pc, opp, cb, bb, ts). unat bb)")
     (auto simp: BIT_CLEAR_measure)

text \<open>
  \<open>generateTurns(player, cb)\<close> clears and fills the generator's \<open>turnList\<close> and writes
  the flags of the board; the model returns the list together with the board.
\<close>

definition generateTurns :: "PlayerColor \<Rightarrow> ChessBoard \<Rightarrow> Turn list \<times> ChessBoard" where
  "generateTurns p cb0 =
     (let opp = togglePlayerColor p;
          bbAllPieces = m_bb cb0 White AllPieces OR m_bb cb0 Black AllPieces;
          bbAllOppTurns = calcAllOppTurns opp cb0;
          bbKingInCheck = m_bb cb0 p King AND bbAllOppTurns;
          cb = setKingInCheck opp False cb0
      in if bbKingInCheck = m_bb cb p King then
           let cb = setKingInCheck p True cb;
               bbUnCheckFields = calcUnCheckFields opp cb;
               turnList =
                 fold (\<lambda>pieceType turnList.
                         checkedPieceLoop \<lparr>player = p, type = pieceType\<rparr> bbAllOppTurns
                           bbUnCheckFields cb (m_bb cb p pieceType) turnList)
                   pieceTypes []
           in (turnList, if turnList = [] then setCheckmate p True cb else cb)
         else
           let cb = setKingInCheck p False cb;
               turnList =
                 (if m_shortCastleRight cb p
                     \<and> calcShortCastleTurns p bbAllPieces bbAllOppTurns \<noteq> 0
                  then (if p = White
                        then [mk_turn Castle \<lparr>player = White, type = King\<rparr> E1 G1]
                        else [mk_turn Castle \<lparr>player = Black, type = King\<rparr> E8 G8])
                  else []);
               turnList =
                 (if m_longCastleRight cb p
                     \<and> calcLongCastleTurns p bbAllPieces bbAllOppTurns \<noteq> 0
                  then turnList @
                       (if p = White
                        then [mk_turn Castle \<lparr>player = White, type = King\<rparr> E1 C1]
                        else [mk_turn Castle \<lparr>player = Black, type = King\<rparr> E8 C8])
                  else turnList);
               turnList =
                 fold (\<lambda>pieceType turnList.
                         pieceLoop \<lparr>player = p, type = pieceType\<rparr> bbAllOppTurns cb
                           (m_bb cb p pieceType) turnList)
                   pieceTypes turnList
           in (turnList, if turnList = [] then setStalemate True cb else cb))"


section \<open>The starting position\<close>

text \<open>
  The standard starting position (\<open>rnbqkbnr/pppppppp/8/8/8/8/PPPPPPPP/RNBQKBNR w KQkq - 0 1\<close>)
  as the twelve piece bitboards and the two unions, all castling rights, no en-passant
  square and no flag set.
\<close>

definition startBits :: "PlayerColor \<Rightarrow> PieceType \<Rightarrow> BitBoard" where
  "startBits p t =
     (case p of
        White \<Rightarrow> (case t of King \<Rightarrow> 0x10 | Queen \<Rightarrow> 0x08 | Bishop \<Rightarrow> 0x24 | Knight \<Rightarrow> 0x42
                   | Rook \<Rightarrow> 0x81 | Pawn \<Rightarrow> 0xFF00 | AllPieces \<Rightarrow> 0xFFFF | NoType \<Rightarrow> 0)
      | Black \<Rightarrow> (case t of King \<Rightarrow> 0x1000000000000000 | Queen \<Rightarrow> 0x0800000000000000
                   | Bishop \<Rightarrow> 0x2400000000000000 | Knight \<Rightarrow> 0x4200000000000000
                   | Rook \<Rightarrow> 0x8100000000000000 | Pawn \<Rightarrow> 0x00FF000000000000
                   | AllPieces \<Rightarrow> 0xFFFF000000000000 | NoType \<Rightarrow> 0)
      | NoPlayer \<Rightarrow> 0)"

definition startBoard :: ChessBoard where
  "startBoard = \<lparr>m_bb = startBits, m_shortCastleRight = (\<lambda>_. True),
     m_longCastleRight = (\<lambda>_. True), m_enPassantSquare = ERR,
     m_kingInCheck = (\<lambda>_. False), m_checkmate = (\<lambda>_. False), m_stalemate = False\<rparr>"





text \<open>
  The twenty turns of White in the order the generator emits them: the knights on G1 and
  B1 (the scan runs from the most significant bit), then the pawns from H2 down to A2,
  each with its double step before its single step.
\<close>

definition startTurns :: "Turn list" where
  "startTurns =
     map (\<lambda>(f, t). mk_turn Move \<lparr>player = White, type = Knight\<rparr> f t)
       [(6, 23), (6, 21), (1, 18), (1, 16)] @
     map (\<lambda>(f, t). mk_turn Move \<lparr>player = White, type = Pawn\<rparr> f t)
       [(15, 31), (15, 23), (14, 30), (14, 22), (13, 29), (13, 21), (12, 28), (12, 20),
        (11, 27), (11, 19), (10, 26), (10, 18), (9, 25), (9, 17), (8, 24), (8, 16)]"

section \<open>Evaluating the generator\<close>

lemma msb_from_numeral:
  "msb_from (numeral k) bb =
     (if bit bb (numeral k) then numeral k else msb_from (pred_numeral k) bb)"
  by (simp add: numeral_eq_Suc)

lemmas kernel_defs =
  upt_rec [of 0] upt_rec [of "Suc n" for n] upt_rec [of "numeral n" for n]
  BB_SCAN_def msb_from_numeral shl_def shr_def maskRank_def maskFile_def
  clearFile_def clearRank_def BIT_SET_def BIT_CLEAR_def BIT_ISSET_def generateBitBoard_def
  fileMaskLoop_def getBitsE_def getBitsW_def getBitsN_def getBitsS_def
  getBitsNE_def getBitsNW_def getBitsSE_def getBitsSW_def Let_def

lemmas calc_defs =
  calcRookTurns_def calcBishopTurns_def calcQueenTurns_def slideUp_def slideDown_def
  calcKingTurns_def calcKnightTurns_def calcPawnTurns_def calcPawnMoveTurns_def
  calcPawnAttackTurns_def calcMoveTurns_def calcShortCastleTurns_def calcLongCastleTurns_def

lemmas eval_congs =
  let_weak_cong PieceType.case_cong_weak PlayerColor.case_cong_weak
  option.case_cong_weak prod.case_cong_weak

lemma setKingInCheck_simps:
  "m_bb (setKingInCheck p b cb) = m_bb cb"
  "m_enPassantSquare (setKingInCheck p b cb) = m_enPassantSquare cb"
  "m_shortCastleRight (setKingInCheck p b cb) = m_shortCastleRight cb"
  "m_longCastleRight (setKingInCheck p b cb) = m_longCastleRight cb"
  "m_checkmate (setKingInCheck p b cb) = m_checkmate cb"
  "m_stalemate (setKingInCheck p b cb) = m_stalemate cb"
  "m_kingInCheck (setKingInCheck p b cb) = (m_kingInCheck cb)(p := b)"
  by (simp_all add: setKingInCheck_def)

lemma setCheckmate_simps:
  "m_bb (setCheckmate p b cb) = m_bb cb"
  "m_kingInCheck (setCheckmate p b cb) = m_kingInCheck cb"
  "m_stalemate (setCheckmate p b cb) = m_stalemate cb"
  "m_checkmate (setCheckmate p b cb) = (m_checkmate cb)(p := b)"
  by (simp_all add: setCheckmate_def)

lemma setStalemate_simps:
  "m_bb (setStalemate b cb) = m_bb cb"
  "m_kingInCheck (setStalemate b cb) = m_kingInCheck cb"
  "m_checkmate (setStalemate b cb) = m_checkmate cb"
  "m_stalemate (setStalemate b cb) = b"
  by (simp_all add: setStalemate_def)

lemma startBoard_simps:
  "m_bb startBoard = startBits"
  "m_enPassantSquare startBoard = ERR"
  "m_shortCastleRight startBoard = (\<lambda>_. True)"
  "m_longCastleRight startBoard = (\<lambda>_. True)"
  "m_checkmate startBoard = (\<lambda>_. False)"
  "m_kingInCheck startBoard = (\<lambda>_. False)"
  "m_stalemate startBoard = False"
  by (simp_all add: startBoard_def)

lemma startBits_simps:
  "startBits White King = 0x10"
  "startBits White AllPieces OR startBits Black AllPieces = 0xFFFF00000000FFFF"
  by (simp_all add: startBits_def)

lemma start_allOppTurns: "calcAllOppTurns Black startBoard = 0x2838FF0000000000"
  by (simp add: calcAllOppTurns_def oppTurnsOfType_def pieceTypes_def startBoard_simps
      startBits_def togglePlayerColor_def ERR_def kernel_defs calc_defs cong: eval_congs)

lemma start_moves:
  assumes "m_bb cb = startBits" "m_enPassantSquare cb = ERR"
  shows "fold (\<lambda>pieceType turnList.
                 pieceLoop \<lparr>player = White, type = pieceType\<rparr> 0x2838FF0000000000 cb
                   (startBits White pieceType) turnList) pieceTypes [] = startTurns"
  by (simp add: assms startBits_def pieceTypes_def bitBoardToTurns_def turnsTo_def rankFor_def
      ERR_def kernel_defs calc_defs startTurns_def mk_turn_def cong: eval_congs)

lemma start_castle:
  "calcShortCastleTurns White 0xFFFF00000000FFFF 0x2838FF0000000000 = 0"
  "calcLongCastleTurns White 0xFFFF00000000FFFF 0x2838FF0000000000 = 0"
  by (simp_all add: calcShortCastleTurns_def calcLongCastleTurns_def kernel_defs)

lemma startTurns_length: "length startTurns = 20"
  by (simp add: startTurns_def)

text \<open>
  C1. From the standard starting position with White to move, \<open>generateTurns\<close> produces
  exactly twenty turns, the four knight moves and the sixteen single and double pawn
  steps of \<open>startTurns\<close>, and the pass sets neither a checkmate flag nor the stalemate
  flag.
\<close>

theorem generateTurns_start:
  "fst (generateTurns White startBoard) = startTurns
   \<and> length (fst (generateTurns White startBoard)) = 20
   \<and> m_checkmate (snd (generateTurns White startBoard)) White = False
   \<and> m_checkmate (snd (generateTurns White startBoard)) Black = False
   \<and> m_stalemate (snd (generateTurns White startBoard)) = False"
proof -
  let ?cb = "setKingInCheck White False (setKingInCheck Black False startBoard)"
  have moves: "fold (\<lambda>pieceType turnList.
                 pieceLoop \<lparr>player = White, type = pieceType\<rparr> 0x2838FF0000000000 ?cb
                   (startBits White pieceType) turnList) pieceTypes [] = startTurns"
    by (rule start_moves) (simp_all add: setKingInCheck_simps startBoard_simps)
  have ne: "startTurns \<noteq> []"
    using startTurns_length by auto
  have gen: "generateTurns White startBoard = (startTurns, ?cb)"
    unfolding generateTurns_def Let_def
    by (simp add: start_allOppTurns togglePlayerColor_def setKingInCheck_simps
        startBoard_simps start_castle startBits_simps moves ne)
  show ?thesis
    unfolding gen
    by (simp add: setKingInCheck_simps startBoard_simps startTurns_length)
qed

text \<open>
  C9. Whatever the board and the player, after \<open>generateTurns(player, cb)\<close> the
  opponent's \<open>kingInCheck\<close> flag is false, whatever it was before; so of the two
  colours only the moving player's flag can be true after a pass.
\<close>

theorem generateTurns_clears_opp_kingInCheck:
  "m_kingInCheck (snd (generateTurns p cb)) (togglePlayerColor p) = False
   \<and> m_kingInCheck (snd (generateTurns White cb)) Black = False
   \<and> m_kingInCheck (snd (generateTurns Black cb)) White = False"
proof -
  have "m_kingInCheck (snd (generateTurns q cb)) (togglePlayerColor q) = False" for q
    unfolding generateTurns_def Let_def
    by (simp add: setKingInCheck_simps setCheckmate_simps setStalemate_simps
        togglePlayerColor_def)
  from this [of p] this [of White] this [of Black] show ?thesis
    by (simp add: togglePlayerColor_def)
qed

section \<open>Shift counts of the ray helpers\<close>

text \<open>
  The shifts again, now with the rule of C++ written out: a count below 0 or of 64 and
  more has no defined result (\<open>None\<close>). The checked helpers repeat the eight ray
  helpers and the two mask functions they call, shift for shift.
\<close>

definition shl_chk :: "BitBoard \<Rightarrow> int \<Rightarrow> BitBoard option" where
  "shl_chk bb n = (if 0 \<le> n \<and> n < 64 then Some (shl bb n) else None)"

definition shr_chk :: "BitBoard \<Rightarrow> int \<Rightarrow> BitBoard option" where
  "shr_chk bb n = (if 0 \<le> n \<and> n < 64 then Some (shr bb n) else None)"

definition maskRank_chk :: "nat \<Rightarrow> BitBoard option" where
  "maskRank_chk rank = shl_chk 0x00000000000000FF (int rank * 8)"

definition maskFile_chk :: "nat \<Rightarrow> BitBoard option" where
  "maskFile_chk file = shl_chk 0x0101010101010101 (int file)"

definition fileMaskLoop_chk :: "nat \<Rightarrow> nat \<Rightarrow> BitBoard option" where
  "fileMaskLoop_chk lo hi =
     fold (\<lambda>i acc. do { bbMask \<leftarrow> acc; m \<leftarrow> maskFile_chk i; Some (bbMask OR m) })
       [lo ..< hi] (Some 0)"

definition getBitsNE_chk :: "BitBoard \<Rightarrow> BitBoard option" where
  "getBitsNE_chk bbPiece =
     (let field = int (BB_SCAN bbPiece) in
      do { bb \<leftarrow> shl_chk 0x8040201008040200 field;
           bbMask \<leftarrow> fileMaskLoop_chk (nat (field mod 8) + 1) 8;
           Some (bb AND bbMask) })"

definition getBitsNW_chk :: "BitBoard \<Rightarrow> BitBoard option" where
  "getBitsNW_chk bbPiece =
     (let field = int (BB_SCAN bbPiece); shift = field - 7 in
      do { bb \<leftarrow> (if shift < 0 then shr_chk 0x0102040810204000 (shift * (-1))
                  else shl_chk 0x0102040810204000 shift);
           bbMask \<leftarrow> fileMaskLoop_chk 0 (nat (field mod 8));
           Some (bb AND bbMask) })"

definition getBitsSE_chk :: "BitBoard \<Rightarrow> BitBoard option" where
  "getBitsSE_chk bbPiece =
     (let field = int (BB_SCAN bbPiece); shift = 56 - field in
      do { bb \<leftarrow> (if shift < 0 then shl_chk 0x0002040810204080 (shift * (-1))
                  else shr_chk 0x0002040810204080 shift);
           bbMask \<leftarrow> fileMaskLoop_chk (nat (field mod 8) + 1) 8;
           Some (bb AND bbMask) })"

definition getBitsSW_chk :: "BitBoard \<Rightarrow> BitBoard option" where
  "getBitsSW_chk bbPiece =
     (let field = int (BB_SCAN bbPiece) in
      do { bb \<leftarrow> shr_chk 0x0040201008040201 (64 - (field + 1));
           bbMask \<leftarrow> fileMaskLoop_chk 0 (nat (field mod 8));
           Some (bb AND bbMask) })"

definition getBitsE_chk :: "BitBoard \<Rightarrow> BitBoard option" where
  "getBitsE_chk bbPiece =
     (let field = int (BB_SCAN bbPiece); shift = 56 - field in
      do { bb \<leftarrow> (if shift > 0 then shr_chk 0xFE00000000000000 shift
                  else shl_chk 0xFE00000000000000 (shift * (-1)));
           m \<leftarrow> maskRank_chk (nat (field div 8));
           Some (bb AND m) })"

definition getBitsW_chk :: "BitBoard \<Rightarrow> BitBoard option" where
  "getBitsW_chk bbPiece =
     (let field = int (BB_SCAN bbPiece) in
      do { bb \<leftarrow> shr_chk 0xFE00000000000000 (64 - field);
           m \<leftarrow> maskRank_chk (nat (field div 8));
           Some (bb AND m) })"

definition getBitsN_chk :: "BitBoard \<Rightarrow> BitBoard option" where
  "getBitsN_chk bbPiece =
     (let field = int (BB_SCAN bbPiece) in shl_chk 0x0101010101010100 field)"

definition getBitsS_chk :: "BitBoard \<Rightarrow> BitBoard option" where
  "getBitsS_chk bbPiece =
     (let field = int (BB_SCAN bbPiece) in shr_chk 0x0080808080808080 (64 - (field + 1)))"

lemma shl_chk_Some: "0 \<le> n \<Longrightarrow> n < 64 \<Longrightarrow> shl_chk bb n = Some (shl bb n)"
  by (simp add: shl_chk_def)

lemma shr_chk_Some: "0 \<le> n \<Longrightarrow> n < 64 \<Longrightarrow> shr_chk bb n = Some (shr bb n)"
  by (simp add: shr_chk_def)

lemma maskFile_chk_Some: "file < 64 \<Longrightarrow> maskFile_chk file = Some (maskFile file)"
  by (simp add: maskFile_chk_def maskFile_def shl_chk_def)

lemma maskRank_chk_Some: "rank < 8 \<Longrightarrow> maskRank_chk rank = Some (maskRank rank)"
  by (simp add: maskRank_chk_def maskRank_def shl_chk_def)

lemma fold_maskFile_chk:
  "\<forall>i\<in>set xs. i < 64 \<Longrightarrow>
   fold (\<lambda>i acc. do { bbMask \<leftarrow> acc; m \<leftarrow> maskFile_chk i; Some (bbMask OR m) }) xs (Some a)
     = Some (fold (\<lambda>i bbMask. bbMask OR maskFile i) xs a)"
  by (induction xs arbitrary: a) (simp_all add: maskFile_chk_Some)

lemma fileMaskLoop_chk_Some:
  "hi \<le> 8 \<Longrightarrow> fileMaskLoop_chk lo hi = Some (fileMaskLoop lo hi)"
  unfolding fileMaskLoop_chk_def fileMaskLoop_def
  by (rule fold_maskFile_chk) auto

lemma field_bounds:
  "0 \<le> int (BB_SCAN bb)" "int (BB_SCAN bb) < 64" "nat (int (BB_SCAN bb) mod 8) \<le> 8"
  "nat (int (BB_SCAN bb) div 8) < 8"
  using BB_SCAN_le [of bb] by auto

text \<open>Seven of the eight helpers shift by 0..63 only, whatever the piece's field.\<close>

lemma getBitsN_chk_ok: "getBitsN_chk bb = Some (getBitsN bb)"
  using field_bounds [of bb] by (simp add: getBitsN_chk_def getBitsN_def shl_chk_Some)

lemma getBitsS_chk_ok: "getBitsS_chk bb = Some (getBitsS bb)"
  using field_bounds [of bb] by (simp add: getBitsS_chk_def getBitsS_def shr_chk_Some)

lemma getBitsE_chk_ok: "getBitsE_chk bb = Some (getBitsE bb)"
  using field_bounds [of bb]
  by (simp add: getBitsE_chk_def getBitsE_def shr_chk_Some shl_chk_Some maskRank_chk_Some Let_def)

lemma getBitsNE_chk_ok: "getBitsNE_chk bb = Some (getBitsNE bb)"
  using field_bounds [of bb]
  by (simp add: getBitsNE_chk_def getBitsNE_def shl_chk_Some fileMaskLoop_chk_Some Let_def)

lemma getBitsNW_chk_ok: "getBitsNW_chk bb = Some (getBitsNW bb)"
  using field_bounds [of bb]
  by (simp add: getBitsNW_chk_def getBitsNW_def shl_chk_Some shr_chk_Some
      fileMaskLoop_chk_Some Let_def)

lemma getBitsSE_chk_ok: "getBitsSE_chk bb = Some (getBitsSE bb)"
  using field_bounds [of bb]
  by (simp add: getBitsSE_chk_def getBitsSE_def shl_chk_Some shr_chk_Some
      fileMaskLoop_chk_Some Let_def)

lemma getBitsSW_chk_ok: "getBitsSW_chk bb = Some (getBitsSW bb)"
  using field_bounds [of bb]
  by (simp add: getBitsSW_chk_def getBitsSW_def shr_chk_Some fileMaskLoop_chk_Some Let_def)

text \<open>\<open>getBitsW\<close> shifts by \<open>64 - field\<close>: in range for every field but A1.\<close>

lemma getBitsW_chk_iff:
  "getBitsW_chk bb = (if BB_SCAN bb = 0 then None else Some (getBitsW bb))"
  using field_bounds [of bb]
  by (simp add: getBitsW_chk_def getBitsW_def shr_chk_def maskRank_chk_Some Let_def)

lemma BB_SCAN_A1: "BB_SCAN (BIT_SET 0 0) = 0"
  by (simp add: BB_SCAN_def BIT_SET_def msb_from_numeral)

text \<open>
  C6. For the piece on A1 (field 0) \<open>getBitsW\<close> computes
  \<open>0xFE00000000000000 >> (64 - 0)\<close>, a shift of a 64-bit value by 64.
\<close>

theorem getBitsW_shift_by_64:
  "getBitsW_chk (BIT_SET 0 0) = None \<and> 64 - int (BB_SCAN (BIT_SET 0 0)) = 64"
  by (simp add: getBitsW_chk_iff BB_SCAN_A1)

text \<open>
  With the count taken modulo 64, as the shift instructions of the usual targets do,
  the result for A1 is the same empty ray as with the mathematical shift of the model.
\<close>

lemma getBitsW_A1_masked_count:
  "drop_bit (64 mod 64) (0xFE00000000000000 :: BitBoard) AND maskRank 0 = getBitsW (BIT_SET 0 0)"
  by (simp add: getBitsW_def BB_SCAN_A1 maskRank_def shl_def shr_def)


section \<open>Incremental evaluator\<close>

type_synonym Score = int

text \<open>
  The position of a piece type in the enumeration; \<open>piece.type <= Pawn\<close> holds for the
  six real piece types only.
\<close>

definition typeIndex :: "PieceType \<Rightarrow> nat" where
  "typeIndex t =
     (case t of King \<Rightarrow> 0 | Queen \<Rightarrow> 1 | Bishop \<Rightarrow> 2 | Knight \<Rightarrow> 3 | Rook \<Rightarrow> 4
      | Pawn \<Rightarrow> 5 | AllPieces \<Rightarrow> 6 | NoType \<Rightarrow> 7)"

text \<open>
  The piece-square tables, indexed by piece type and then by field from Black's point of
  view, and the piece values. Both arrays have six rows; the model gives the two other
  constructors an empty row and the value 0.
\<close>

definition PIECE_SQUARE_TABLE :: "PieceType \<Rightarrow> Score list" where
  "PIECE_SQUARE_TABLE t =
     (case t of
        King \<Rightarrow>
         [-30, -40, -40, -50, -50, -40, -40, -30,
          -30, -40, -40, -50, -50, -40, -40, -30,
          -30, -40, -40, -50, -50, -40, -40, -30,
          -30, -40, -40, -50, -50, -40, -40, -30,
          -20, -30, -30, -40, -40, -30, -30, -20,
          -10, -20, -20, -20, -20, -20, -20, -10,
          20, 20, 0, 0, 0, 0, 20, 20,
          20, 30, 10, 0, 0, 10, 30, 20]
      | Queen \<Rightarrow>
         [-20, -10, -10, -5, -5, -10, -10, -20,
          -10, 0, 0, 0, 0, 0, 0, -10,
          -10, 0, 5, 5, 5, 5, 0, -10,
          -5, 0, 5, 5, 5, 5, 0, -5,
          0, 0, 5, 5, 5, 5, 0, -5,
          -10, 5, 5, 5, 5, 5, 0, -10,
          -10, 0, 5, 0, 0, 0, 0, -10,
          -20, -10, -10, -5, -5, -10, -10, -20]
      | Bishop \<Rightarrow>
         [-20, -10, -10, -10, -10, -10, -10, -20,
          -10, 0, 0, 0, 0, 0, 0, -10,
          -10, 0, 5, 10, 10, 5, 0, -10,
          -10, 5, 5, 10, 10, 5, 5, -10,
          -10, 0, 10, 10, 10, 10, 0, -10,
          -10, 10, 10, 10, 10, 10, 10, -10,
          -10, 5, 0, 0, 0, 0, 5, -10,
          -20, -10, -10, -10, -10, -10, -10, -20]
      | Knight \<Rightarrow>
         [-50, -40, -30, -30, -30, -30, -40, -50,
          -40, -20, 0, 0, 0, 0, -20, -40,
          -30, 0, 10, 15, 15, 10, 0, -30,
          -30, 5, 15, 20, 20, 15, 5, -30,
          -30, 0, 15, 20, 20, 15, 0, -30,
          -30, 5, 10, 15, 15, 10, 5, -30,
          -40, -20, 0, 5, 5, 0, -20, -40,
          -50, -40, -30, -30, -30, -30, -40, -50]
      | Rook \<Rightarrow>
         [0, 0, 0, 0, 0, 0, 0, 0,
          5, 10, 10, 10, 10, 10, 10, 5,
          -5, 0, 0, 0, 0, 0, 0, -5,
          -5, 0, 0, 0, 0, 0, 0, -5,
          -5, 0, 0, 0, 0, 0, 0, -5,
          -5, 0, 0, 0, 0, 0, 0, -5,
          -5, 0, 0, 0, 0, 0, 0, -5,
          0, 0, 0, 5, 5, 0, 0, 0]
      | Pawn \<Rightarrow>
         [0, 0, 0, 0, 0, 0, 0, 0,
          50, 50, 50, 50, 50, 50, 50, 50,
          10, 10, 20, 30, 30, 20, 10, 10,
          5, 5, 10, 25, 25, 10, 5, 5,
          0, 0, 0, 20, 20, 0, 0, 0,
          5, -5, -10, 0, 0, -10, -5, 5,
          5, 10, 10, -20, -20, 10, 10, 5,
          0, 0, 0, 0, 0, 0, 0, 0]
      | _ \<Rightarrow> [])"

definition PIECE_VALUES :: "PieceType \<Rightarrow> Score" where
  "PIECE_VALUES t =
     (case t of King \<Rightarrow> 20000 | Queen \<Rightarrow> 900 | Bishop \<Rightarrow> 330 | Knight \<Rightarrow> 320
      | Rook \<Rightarrow> 500 | Pawn \<Rightarrow> 100 | _ \<Rightarrow> 0)"

text \<open>
  Modelled from the spec: \<open>flipHorizontal(f)\<close> swaps ranks across the board midline
  and \<open>nextField\<close> steps to the following field; both are declared in the missing
  header of the chess types.
\<close>

definition flipHorizontal :: "Field \<Rightarrow> Field" where
  "flipHorizontal f = (7 - rankFor f) * 8 + fileFor f"

definition nextField :: "Field \<Rightarrow> Field" where
  "nextField f = f + 1"

text \<open>The contribution of one piece on one field, as the loop body adds it.\<close>

definition addPiece :: "Piece \<Rightarrow> Field \<Rightarrow> Score \<Rightarrow> Score" where
  "addPiece pc position score =
     (if typeIndex (type pc) \<le> typeIndex Pawn then
        let psqPosition = (if player pc = Black then position else flipHorizontal position);
            pieceSquareScore = PIECE_SQUARE_TABLE (type pc) ! psqPosition;
            pieceOverallScore = PIECE_VALUES (type pc) + pieceSquareScore
        in if player pc = White then score + pieceOverallScore
           else score - pieceOverallScore
      else score)"

fun estimateLoop :: "Piece list \<Rightarrow> Field \<Rightarrow> Score \<Rightarrow> Score" where
  "estimateLoop [] position score = score"
| "estimateLoop (pc # board) position score =
     estimateLoop board (nextField position) (addPiece pc position score)"

definition estimateFullBoard :: "Piece list \<Rightarrow> Score" where
  "estimateFullBoard board = estimateLoop board 0 0"

definition moveIncrement :: "Turn \<Rightarrow> Score \<Rightarrow> Score" where
  "moveIncrement turn m_estimatedScore =
     (if player (piece turn) = Black then
        m_estimatedScore + PIECE_SQUARE_TABLE (type (piece turn)) ! from_field turn
                         - PIECE_SQUARE_TABLE (type (piece turn)) ! to_field turn
      else
        m_estimatedScore
          - PIECE_SQUARE_TABLE (type (piece turn)) ! flipHorizontal (from_field turn)
          + PIECE_SQUARE_TABLE (type (piece turn)) ! flipHorizontal (to_field turn))"

definition captureIncrement :: "Field \<Rightarrow> Piece \<Rightarrow> Score \<Rightarrow> Score" where
  "captureIncrement field pc m_estimatedScore =
     (if player pc = Black then
        m_estimatedScore + PIECE_SQUARE_TABLE (type pc) ! field + PIECE_VALUES (type pc)
      else
        m_estimatedScore - PIECE_SQUARE_TABLE (type pc) ! flipHorizontal field
                         - PIECE_VALUES (type pc))"

definition getScore :: "PlayerColor \<Rightarrow> Score \<Rightarrow> Score" where
  "getScore color m_estimatedScore =
     (if color = White then m_estimatedScore else - m_estimatedScore)"

text \<open>The empty square and a real piece.\<close>

definition noPiece :: Piece where
  "noPiece = \<lparr>player = NoPlayer, type = NoType\<rparr>"

definition realPiece :: "Piece \<Rightarrow> bool" where
  "realPiece pc = ((player pc = White \<or> player pc = Black) \<and> typeIndex (type pc) \<le> typeIndex Pawn)"

text \<open>
  The board array after an ordinary move: the origin is empty and the destination
  holds the moved piece.
\<close>

definition boardAfterMove :: "Piece list \<Rightarrow> Field \<Rightarrow> Field \<Rightarrow> Piece list" where
  "boardAfterMove board f1 f2 = board[f1 := noPiece, f2 := board ! f1]"

text \<open>
  The evaluator's score after the board has applied the move: \<open>captureIncrement\<close> for the
  piece on the destination, when there is one, then \<open>moveIncrement\<close>.
\<close>

definition scoreAfterMove :: "Piece list \<Rightarrow> Field \<Rightarrow> Field \<Rightarrow> Score \<Rightarrow> Score" where
  "scoreAfterMove board f1 f2 score =
     moveIncrement (mk_turn Move (board ! f1) f1 f2)
       (if typeIndex (type (board ! f2)) \<le> typeIndex Pawn
        then captureIncrement f2 (board ! f2) score else score)"

definition contrib :: "Piece \<Rightarrow> Field \<Rightarrow> Score" where
  "contrib pc position = addPiece pc position 0"

lemma addPiece_contrib: "addPiece pc position score = score + contrib pc position"
  by (simp add: addPiece_def contrib_def Let_def)

lemma estimateLoop_sum:
  "estimateLoop board position score =
     score + (\<Sum>i<length board. contrib (board ! i) (position + i))"
proof (induction board arbitrary: position score)
  case Nil
  then show ?case by simp
next
  case (Cons pc board)
  have "(\<Sum>i<Suc (length board). contrib ((pc # board) ! i) (position + i)) =
        contrib pc position + (\<Sum>i<length board. contrib (board ! i) (Suc position + i))"
    by (simp add: sum.lessThan_Suc_shift del: sum.lessThan_Suc)
  with Cons show ?case
    by (simp add: addPiece_contrib nextField_def)
qed

lemma estimateFullBoard_sum:
  "estimateFullBoard board = (\<Sum>i<length board. contrib (board ! i) i)"
  by (simp add: estimateFullBoard_def estimateLoop_sum)

lemma sum_two_out:
  fixes g :: "nat \<Rightarrow> int"
  assumes "a < n" "b < n" "a \<noteq> b"
  shows "(\<Sum>i<n. g i) = g a + g b + (\<Sum>i\<in>{..<n} - {a, b}. g i)"
proof -
  have "(\<Sum>i<n. g i) = g a + (\<Sum>i\<in>{..<n} - {a}. g i)"
    using assms by (simp add: sum.remove)
  also have "(\<Sum>i\<in>{..<n} - {a}. g i) = g b + (\<Sum>i\<in>{..<n} - {a} - {b}. g i)"
    using assms by (simp add: sum.remove)
  also have "{..<n} - {a} - {b} = {..<n} - {a, b}"
    by auto
  finally show ?thesis by simp
qed

text \<open>
  C8. For a board array of 64 squares and an ordinary move of a real piece from \<open>f1\<close> to
  another square \<open>f2\<close> that is empty or holds a real piece (which is then captured), the
  increments applied to the full evaluation of the board give the full evaluation of
  the board after the move.
\<close>

theorem incremental_score_eq_full:
  assumes len: "length board = 64"
    and f1: "f1 < 64" and f2: "f2 < 64" and ne: "f1 \<noteq> f2"
    and mover: "realPiece (board ! f1)"
    and victim: "realPiece (board ! f2) \<or> board ! f2 = noPiece"
  shows "scoreAfterMove board f1 f2 (estimateFullBoard board) =
         estimateFullBoard (boardAfterMove board f1 f2)"
proof -
  let ?B' = "boardAfterMove board f1 f2"
  let ?p = "board ! f1" and ?v = "board ! f2"
  have len': "length ?B' = 64"
    by (simp add: boardAfterMove_def len)
  have rest: "(\<Sum>i\<in>{..<64} - {f1, f2}. contrib (?B' ! i) i) =
              (\<Sum>i\<in>{..<64} - {f1, f2}. contrib (board ! i) i)"
    by (rule sum.cong) (auto simp: boardAfterMove_def)
  have at1: "?B' ! f1 = noPiece" and at2: "?B' ! f2 = ?p"
    using f1 f2 ne len by (simp_all add: boardAfterMove_def)
  have old: "estimateFullBoard board =
             contrib ?p f1 + contrib ?v f2 + (\<Sum>i\<in>{..<64} - {f1, f2}. contrib (board ! i) i)"
    unfolding estimateFullBoard_sum len by (rule sum_two_out [OF f1 f2 ne])
  have new: "estimateFullBoard ?B' =
             contrib noPiece f1 + contrib ?p f2 + (\<Sum>i\<in>{..<64} - {f1, f2}. contrib (board ! i) i)"
    unfolding estimateFullBoard_sum len' sum_two_out [OF f1 f2 ne, of "\<lambda>i. contrib (?B' ! i) i"]
    by (simp add: at1 at2 rest)
  have empty: "contrib noPiece f1 = 0"
    by (simp add: contrib_def addPiece_def noPiece_def typeIndex_def)
  from victim show ?thesis
  proof
    assume v: "realPiece ?v"
    with mover show ?thesis
      unfolding old new empty scoreAfterMove_def
      by (auto simp: realPiece_def moveIncrement_def captureIncrement_def contrib_def
          addPiece_def mk_turn_def Let_def)
  next
    assume v: "?v = noPiece"
    with mover show ?thesis
      unfolding old new empty scoreAfterMove_def
      by (auto simp: realPiece_def moveIncrement_def contrib_def addPiece_def mk_turn_def
          noPiece_def typeIndex_def Let_def)
  qed
qed


text \<open>A white pawn on E4 takes a black knight on D5.\<close>

definition witnessBoard :: "Piece list" where
  "witnessBoard = (replicate 64 noPiece)
     [28 := \<lparr>player = White, type = Pawn\<rparr>, 35 := \<lparr>player = Black, type = Knight\<rparr>]"

theorem incremental_score_eq_full_witness:
  "length witnessBoard = 64 \<and> (28::nat) < 64 \<and> (35::nat) < 64
   \<and> realPiece (witnessBoard ! 28) \<and> realPiece (witnessBoard ! 35)
   \<and> scoreAfterMove witnessBoard 28 35 (estimateFullBoard witnessBoard) =
       estimateFullBoard (boardAfterMove witnessBoard 28 35)
   \<and> scoreAfterMove witnessBoard 28 35 (estimateFullBoard witnessBoard) = 125"
proof -
  have len: "length witnessBoard = 64"
    by (simp add: witnessBoard_def)
  have p: "witnessBoard ! 28 = \<lparr>player = White, type = Pawn\<rparr>"
    and v: "witnessBoard ! 35 = \<lparr>player = Black, type = Knight\<rparr>"
    by (simp_all add: witnessBoard_def)
  have rp: "realPiece (witnessBoard ! 28)" and rv: "realPiece (witnessBoard ! 35)"
    by (simp_all add: p v realPiece_def typeIndex_def)
  have eq: "scoreAfterMove witnessBoard 28 35 (estimateFullBoard witnessBoard) =
       estimateFullBoard (boardAfterMove witnessBoard 28 35)"
    using incremental_score_eq_full [of witnessBoard 28 35] len rp rv by simp
  have "estimateFullBoard (boardAfterMove witnessBoard 28 35) = 125"
    by code_simp
  with len rp rv eq show ?thesis by simp
qed



section \<open>Transposition table\<close>

text \<open>
  Modelled from the spec: the table's implementation is not among the sources (only its
  test and its use in the search are). It is a fixed-size direct-mapped table; each slot
  stores \<open>{hash, bestMove, score, depth, boundKind}\<close>; \<open>lookup(hash)\<close> reads slot
  \<open>hash mod size\<close> and returns the entry only if the stored hash equals the query hash;
  the replacement policy of \<open>maybeUpdate\<close> is "always replace".
\<close>

type_synonym Hash = "64 word"

datatype BoundType = EXACT | LOWER | UPPER

record TranspositionTableEntry =
  entry_hash :: Hash
  entry_turn :: Turn
  entry_score :: Score
  entry_depth :: nat
  entry_boundType :: BoundType

record TranspositionTable =
  slots :: "nat \<Rightarrow> TranspositionTableEntry option"
  tableSize :: nat

definition emptyTable :: "nat \<Rightarrow> TranspositionTable" where
  "emptyTable n = \<lparr>slots = (\<lambda>_. None), tableSize = n\<rparr>"

definition lookup :: "TranspositionTable \<Rightarrow> Hash \<Rightarrow> TranspositionTableEntry option" where
  "lookup tbl h =
     (case slots tbl (unat h mod tableSize tbl) of
        None \<Rightarrow> None
      | Some e \<Rightarrow> if entry_hash e = h then Some e else None)"

definition maybeUpdate :: "TranspositionTableEntry \<Rightarrow> TranspositionTable \<Rightarrow> TranspositionTable" where
  "maybeUpdate e tbl = tbl\<lparr>slots := (slots tbl)(unat (entry_hash e) mod tableSize tbl := Some e)\<rparr>"

definition isExactBound :: "TranspositionTableEntry \<Rightarrow> bool" where
  "isExactBound e = (entry_boundType e = EXACT)"

definition isLowerBound :: "TranspositionTableEntry \<Rightarrow> bool" where
  "isLowerBound e = (entry_boundType e = LOWER)"

definition isUpperBound :: "TranspositionTableEntry \<Rightarrow> bool" where
  "isUpperBound e = (entry_boundType e = UPPER)"

section \<open>Negamax search\<close>

text \<open>
  \<open>Negamax\<close> is a template over the game state type and three boolean toggles. The
  game state enters through the five member functions the search calls; the constants
  \<open>MIN_SCORE\<close> and \<open>MAX_SCORE\<close> come from a header that is not among the sources and
  are parameters as well. Scores are \<open>int\<close> in the source; the model takes unbounded
  integers.
\<close>

record 's GameOps =
  gs_isGameOver :: "'s \<Rightarrow> bool"
  gs_getScore :: "'s \<Rightarrow> nat \<Rightarrow> Score"
  gs_getHash :: "'s \<Rightarrow> Hash"
  gs_getTurnList :: "'s \<Rightarrow> Turn list"
  gs_applyTurn :: "'s \<Rightarrow> Turn \<Rightarrow> 's"

record 's Config =
  game :: "'s GameOps"
  AB_CUTOFF_ENABLED :: bool
  MOVE_ORDERING_ENABLED :: bool
  TRANSPOSITION_TABLES_ENABLED :: bool
  MIN_SCORE :: Score
  MAX_SCORE :: Score

record NegamaxResult =
  res_score :: Score
  res_turn :: "Turn option"

text \<open>\<open>operator-\<close> of a result negates the score and keeps the turn.\<close>

definition negResult :: "NegamaxResult \<Rightarrow> NegamaxResult" where
  "negResult r = r\<lparr>res_score := - res_score r\<rparr>"

text \<open>The value \<open>{0, boost::none}\<close> returned on abort.\<close>

definition sentinel :: NegamaxResult where
  "sentinel = \<lparr>res_score = 0, res_turn = None\<rparr>"

text \<open>
  The members of a \<open>Negamax\<close> object the search uses (the performance counters are
  written only and left out), and the one thing outside it that the search can observe:
  another thread's call of \<open>abort()\<close>. \<open>abortAt = Some k\<close> says that this write lands
  after \<open>k\<close> more reads of the flag by the searching thread, \<open>None\<close> that no such call is
  under way.
\<close>

record Negamax =
  m_transpositionTable :: TranspositionTable
  m_abort :: bool
  abortAt :: "nat option"

definition abort :: "Negamax \<Rightarrow> Negamax" where
  "abort ng = ng\<lparr>m_abort := True\<rparr>"

text \<open>One read of the atomic flag \<open>m_abort\<close>.\<close>

definition readAbort :: "Negamax \<Rightarrow> bool \<times> Negamax" where
  "readAbort ng =
     (if m_abort ng then (True, ng)
      else (case abortAt ng of
              None \<Rightarrow> (False, ng)
            | Some 0 \<Rightarrow> (True, ng\<lparr>m_abort := True, abortAt := None\<rparr>)
            | Some (Suc k) \<Rightarrow> (False, ng\<lparr>abortAt := Some k\<rparr>)))"

datatype error = AssertionFailed

definition estimateScoreFor :: "'s Config \<Rightarrow> Negamax \<Rightarrow> 's \<Rightarrow> nat \<Rightarrow> Score" where
  "estimateScoreFor cfg ng state depth =
     (if TRANSPOSITION_TABLES_ENABLED cfg then
        (case lookup (m_transpositionTable ng) (gs_getHash (game cfg) state) of
           None \<Rightarrow> - gs_getScore (game cfg) state depth
         | Some entry \<Rightarrow>
             if isUpperBound entry then - MIN_SCORE cfg else - entry_score entry)
      else - gs_getScore (game cfg) state depth)"

text \<open>A move option: the state after the turn, the turn, and the estimate.\<close>

record 's MoveOption =
  opt_state :: 's
  opt_turn :: Turn
  opt_score :: Score

text \<open>
  \<open>std::sort\<close> with \<open>Option::operator<\<close>, which orders by descending score. The
  standard leaves the order of options with equal scores open; the model takes the
  stable insertion sort.
\<close>

definition sortOptions :: "'s MoveOption list \<Rightarrow> 's MoveOption list" where
  "sortOptions opts = sort_key (\<lambda>opt. - opt_score opt) opts"

definition considerOptions :: "'s Config \<Rightarrow> Negamax \<Rightarrow> 's \<Rightarrow> nat \<Rightarrow> 's MoveOption list" where
  "considerOptions cfg ng state depth =
     (let consideredOptions =
            map (\<lambda>turn.
                   let newState = gs_applyTurn (game cfg) state turn
                   in \<lparr>opt_state = newState, opt_turn = turn,
                       opt_score = estimateScoreFor cfg ng newState (depth + 1)\<rparr>)
              (gs_getTurnList (game cfg) state)
      in if MOVE_ORDERING_ENABLED cfg then sortOptions consideredOptions
         else consideredOptions)"

text \<open>
  The probe of the table at the head of \<open>search_recurse\<close>: \<open>Inl\<close> of the result the
  function returns at once, or \<open>Inr\<close> of the window \<open>(alpha, beta)\<close> the search goes on
  with.
\<close>

definition probeTable ::
    "'s Config \<Rightarrow> Negamax \<Rightarrow> 's \<Rightarrow> nat \<Rightarrow> Score \<Rightarrow> Score \<Rightarrow> NegamaxResult + Score \<times> Score" where
  "probeTable cfg ng state pliesLeft alpha beta =
     (if TRANSPOSITION_TABLES_ENABLED cfg then
        (case lookup (m_transpositionTable ng) (gs_getHash (game cfg) state) of
          None \<Rightarrow> Inr (alpha, beta)
        | Some tableEntry \<Rightarrow>
            if entry_depth tableEntry \<ge> pliesLeft then
              if isExactBound tableEntry then
                Inl \<lparr>res_score = entry_score tableEntry, res_turn = Some (entry_turn tableEntry)\<rparr>
              else
                let alpha' = (if isLowerBound tableEntry
                              then max alpha (entry_score tableEntry) else alpha);
                    beta' = (if isLowerBound tableEntry
                             then beta else min beta (entry_score tableEntry))
                in if AB_CUTOFF_ENABLED cfg \<and> alpha' \<ge> beta'
                   then Inl \<lparr>res_score = entry_score tableEntry,
                             res_turn = Some (entry_turn tableEntry)\<rparr>
                   else Inr (alpha', beta')
            else Inr (alpha, beta))
      else Inr (alpha, beta))"

text \<open>The bound type of the entry stored at the end.\<close>

definition boundFor :: "Score \<Rightarrow> Score \<Rightarrow> Score \<Rightarrow> BoundType" where
  "boundFor bestScore initialAlpha beta =
     (if bestScore \<le> initialAlpha then UPPER
      else if bestScore \<ge> beta then LOWER
      else EXACT)"

text \<open>
  The loop over the options. \<open>rec\<close> is the recursive call for a child state with the
  window \<open>(-beta, -alpha)\<close>. The loop ends with \<open>Inr (Some bestResult)\<close> when the options
  are exhausted or a cutoff breaks it, with \<open>Inr None\<close> when the abort flag is read as
  set (the function then returns the sentinel), and with \<open>Inl\<close> when an assertion
  failed below.
\<close>

fun optionLoop ::
    "bool \<Rightarrow> ('s \<Rightarrow> Score \<Rightarrow> Score \<Rightarrow> Negamax \<Rightarrow> (error + NegamaxResult) \<times> Negamax)
     \<Rightarrow> 's MoveOption list \<Rightarrow> NegamaxResult \<Rightarrow> Score \<Rightarrow> Score \<Rightarrow> Negamax
     \<Rightarrow> (error + NegamaxResult option) \<times> Negamax" where
  "optionLoop ab rec [] bestResult alpha beta ng = (Inr (Some bestResult), ng)"
| "optionLoop ab rec (opt # rest) bestResult alpha beta ng =
     (case rec (opt_state opt) (- beta) (- alpha) ng of
        (Inl e, ng1) \<Rightarrow> (Inl e, ng1)
      | (Inr r, ng1) \<Rightarrow>
          let result = negResult r;
              bestResult' = (if res_score result > res_score bestResult
                             then result\<lparr>res_turn := Some (opt_turn opt)\<rparr>
                             else bestResult);
              alpha' = max alpha (res_score result)
          in if ab \<and> alpha' \<ge> beta then (Inr (Some bestResult'), ng1)
             else (case readAbort ng1 of
                     (True, ng2) \<Rightarrow> (Inr None, ng2)
                   | (False, ng2) \<Rightarrow> optionLoop ab rec rest bestResult' alpha' beta ng2))"

function search_recurse ::
    "'s Config \<Rightarrow> 's \<Rightarrow> nat \<Rightarrow> nat \<Rightarrow> Score \<Rightarrow> Score \<Rightarrow> Negamax
     \<Rightarrow> (error + NegamaxResult) \<times> Negamax" where
  "search_recurse cfg state depth maxDepth alpha beta ng0 =
     (case readAbort ng0 of
        (True, ng) \<Rightarrow> (Inr sentinel, ng)
      | (False, ng) \<Rightarrow>
          if gs_isGameOver (game cfg) state \<or> maxDepth - depth = 0 then
            (Inr \<lparr>res_score = gs_getScore (game cfg) state depth, res_turn = None\<rparr>, ng)
          else
            (case probeTable cfg ng state (maxDepth - depth) alpha beta of
              Inl r \<Rightarrow> (Inr r, ng)
            | Inr (alpha', beta') \<Rightarrow>
                if gs_getTurnList (game cfg) state = [] then (Inl AssertionFailed, ng)
                else
                  (case optionLoop (AB_CUTOFF_ENABLED cfg)
                         (\<lambda>newState a b ng'.
                            search_recurse cfg newState (depth + 1) maxDepth a b ng')
                         (considerOptions cfg ng state depth)
                         \<lparr>res_score = MIN_SCORE cfg, res_turn = None\<rparr> alpha' beta' ng of
                    (Inl e, ng1) \<Rightarrow> (Inl e, ng1)
                  | (Inr None, ng1) \<Rightarrow> (Inr sentinel, ng1)
                  | (Inr (Some bestResult), ng1) \<Rightarrow>
                      if TRANSPOSITION_TABLES_ENABLED cfg then
                        (case res_turn bestResult of
                          None \<Rightarrow> (Inl AssertionFailed, ng1)
                        | Some t \<Rightarrow>
                            (Inr bestResult,
                             ng1\<lparr>m_transpositionTable :=
                                   maybeUpdate
                                     \<lparr>entry_hash = gs_getHash (game cfg) state,
                                      entry_turn = t,
                                      entry_score = res_score bestResult,
                                      entry_depth = maxDepth - depth,
                                      entry_boundType =
                                        boundFor (res_score bestResult) alpha beta'\<rparr>
                                     (m_transpositionTable ng1)\<rparr>))
                      else (Inr bestResult, ng1))))"
  by pat_completeness auto
termination
  by (relation "measure (\<lambda>(cfg, state, depth, maxDepth, alpha, beta, ng). maxDepth - depth)")
     auto

declare search_recurse.simps [simp del]

definition search :: "'s Config \<Rightarrow> 's \<Rightarrow> nat \<Rightarrow> Negamax \<Rightarrow> (error + NegamaxResult) \<times> Negamax" where
  "search cfg state maxDepth ng =
     search_recurse cfg state 0 maxDepth (MIN_SCORE cfg) (MAX_SCORE cfg) (ng\<lparr>m_abort := False\<rparr>)"

subsection \<open>Searches without an abort\<close>

definition noAbort :: "Negamax \<Rightarrow> bool" where
  "noAbort ng = (m_abort ng = False \<and> abortAt ng = None)"

lemma readAbort_noAbort: "noAbort ng \<Longrightarrow> readAbort ng = (False, ng)"
  by (simp add: readAbort_def noAbort_def)

lemma optionLoop_noAbort:
  assumes "\<And>st a b ng r ng'. noAbort ng \<Longrightarrow> rec st a b ng = (r, ng') \<Longrightarrow> noAbort ng'"
    and "noAbort ng" and "optionLoop ab rec opts best alpha beta ng = (res, ng')"
  shows "noAbort ng' \<and> res \<noteq> Inr None"
  using assms(2,3)
proof (induction opts arbitrary: best alpha ng)
  case Nil
  then show ?case by auto
next
  case (Cons opt rest)
  obtain r1 ng1 where r1: "rec (opt_state opt) (- beta) (- alpha) ng = (r1, ng1)"
    by (cases "rec (opt_state opt) (- beta) (- alpha) ng")
  with Cons.prems(1) have na1: "noAbort ng1"
    using assms(1) by blast
  show ?case
  proof (cases r1)
    case (Inl e)
    with Cons.prems r1 na1 show ?thesis by auto
  next
    case (Inr r)
    with Cons.prems r1 na1 Cons.IH show ?thesis
      by (auto simp: Let_def readAbort_noAbort split: if_splits)
  qed
qed


lemma search_recurse_noAbort:
  "noAbort ng \<Longrightarrow> search_recurse cfg state depth maxDepth alpha beta ng = (res, ng')
   \<Longrightarrow> noAbort ng'"
proof (induction cfg state depth maxDepth alpha beta ng arbitrary: res ng'
       rule: search_recurse.induct)
  case (1 cfg state depth maxDepth alpha beta ng0)
  note na = \<open>noAbort ng0\<close>
  have rd: "readAbort ng0 = (False, ng0)"
    using na by (rule readAbort_noAbort)
  show ?case
  proof (cases "gs_isGameOver (game cfg) state \<or> maxDepth - depth = 0")
    case True
    with "1.prems" rd show ?thesis
      by (simp add: search_recurse.simps [of cfg state])
  next
    case False
    show ?thesis
    proof (cases "probeTable cfg ng0 state (maxDepth - depth) alpha beta")
      case (Inl r)
      with "1.prems" rd False show ?thesis
        by (simp add: search_recurse.simps [of cfg state])
    next
      case (Inr w)
      obtain a' b' where w: "w = (a', b')" by (cases w)
      show ?thesis
      proof (cases "gs_getTurnList (game cfg) state = []")
        case True
        with "1.prems" rd False Inr w show ?thesis
          by (simp add: search_recurse.simps [of cfg state])
      next
        case ne: False
        let ?rec = "\<lambda>newState a b ng'. search_recurse cfg newState (depth + 1) maxDepth a b ng'"
        have rec: "\<And>st a b ng r ng'. noAbort ng \<Longrightarrow> ?rec st a b ng = (r, ng') \<Longrightarrow> noAbort ng'"
          using "1.IH" [OF rd [symmetric] refl False Inr w [symmetric] ne] by blast
        obtain lres ng1 where loop:
          "optionLoop (AB_CUTOFF_ENABLED cfg) ?rec (considerOptions cfg ng0 state depth)
             \<lparr>res_score = MIN_SCORE cfg, res_turn = None\<rparr> a' b' ng0 = (lres, ng1)"
          by (cases "optionLoop (AB_CUTOFF_ENABLED cfg) ?rec (considerOptions cfg ng0 state depth)
             \<lparr>res_score = MIN_SCORE cfg, res_turn = None\<rparr> a' b' ng0")
        have "noAbort ng1 \<and> lres \<noteq> Inr None"
        proof (rule optionLoop_noAbort [OF _ na loop])
          fix st a b ng r ng'
          assume "noAbort ng" "?rec st a b ng = (r, ng')"
          then show "noAbort ng'" by (rule rec)
        qed
        then have na1: "noAbort ng1" and notNone: "lres \<noteq> Inr None"
          by blast+
        from "1.prems"(2) rd False Inr w ne loop na1 notNone show ?thesis
          by (auto simp: search_recurse.simps [of cfg state] noAbort_def
              split: sum.splits option.splits if_splits)
      qed
    qed
  qed
qed

lemma lookup_maybeUpdate: "lookup (maybeUpdate e tbl) (entry_hash e) = Some e"
  by (simp add: lookup_def maybeUpdate_def)

text \<open>
  \<open>search\<close> starts by writing \<open>false\<close> to the abort flag. A search from an object
  whose flag is set runs exactly as from the same object with the flag clear, and when
  no \<open>abort()\<close> arrives during the search the flag is clear in every frame and at the
  end.
\<close>

lemma search_ignores_flag:
  "search cfg state maxDepth (ng\<lparr>m_abort := b\<rparr>) =
     search cfg state maxDepth (ng\<lparr>m_abort := False\<rparr>)"
  by (simp add: search_def)

lemma search_after_abort_call:
  "search cfg state maxDepth (abort ng) = search cfg state maxDepth (ng\<lparr>m_abort := False\<rparr>)"
  by (simp add: search_def abort_def)

lemma search_clears_flag:
  assumes "abortAt ng = None"
  shows "noAbort (snd (search cfg state maxDepth ng))"
proof -
  have "noAbort (ng\<lparr>m_abort := False\<rparr>)"
    using assms by (simp add: noAbort_def)
  then show ?thesis
    unfolding search_def
    by (rule search_recurse_noAbort) (rule surjective_pairing)
qed

section \<open>Mock games\<close>

text \<open>
  A game given as a finite tree, for running the search on concrete inputs: a state
  carries its hash, its game-over flag, its score (by depth) and its turns with the
  states they lead to. The same subtree under two parents is one state reached along
  two paths.
\<close>

datatype MockState =
  MockState (ms_hash: nat) (ms_over: bool) (ms_score: "nat \<Rightarrow> int")
    (ms_moves: "(Turn \<times> MockState) list")

definition mockGame :: "MockState GameOps" where
  "mockGame = \<lparr>gs_isGameOver = ms_over, gs_getScore = ms_score,
     gs_getHash = (\<lambda>s. of_nat (ms_hash s)), gs_getTurnList = (\<lambda>s. map fst (ms_moves s)),
     gs_applyTurn = (\<lambda>s t. case map_of (ms_moves s) t of Some c \<Rightarrow> c | None \<Rightarrow> s)\<rparr>"

definition mockConfig :: "bool \<Rightarrow> bool \<Rightarrow> bool \<Rightarrow> MockState Config" where
  "mockConfig ab mo tt = \<lparr>game = mockGame, AB_CUTOFF_ENABLED = ab, MOVE_ORDERING_ENABLED = mo,
     TRANSPOSITION_TABLES_ENABLED = tt, MIN_SCORE = -1000000, MAX_SCORE = 1000000\<rparr>"

definition freshNegamax :: Negamax where
  "freshNegamax = \<lparr>m_transpositionTable = emptyTable 1048576, m_abort = False, abortAt = None\<rparr>"

definition tn :: "nat \<Rightarrow> Turn" where
  "tn k = mk_turn Move \<lparr>player = White, type = Pawn\<rparr> k (k + 8)"

definition leaf :: "nat \<Rightarrow> int \<Rightarrow> MockState" where
  "leaf h v = MockState h False (\<lambda>_. v) []"

lemmas search_mock = search_recurse.simps [of _ "MockState h ov sc mv" for h ov sc mv]

lemmas mock_defs = search_def mockConfig_def mockGame_def freshNegamax_def emptyTable_def
  tn_def leaf_def mk_turn_def readAbort_def probeTable_def considerOptions_def
  estimateScoreFor_def sortOptions_def lookup_def maybeUpdate_def boundFor_def
  isExactBound_def isLowerBound_def isUpperBound_def negResult_def sentinel_def Let_def

lemmas mock_congs = let_weak_cong prod.case_cong_weak sum.case_cong_weak option.case_cong_weak
  nat.case_cong_weak

subsection \<open>A position reached at two depths\<close>

text \<open>
  From the root \<open>stR\<close> the state \<open>stX\<close> is reached by the turn \<open>tn 0\<close> at depth 1 and by
  \<open>tn 1\<close>, \<open>tn 2\<close> at depth 2. With three plies, \<open>stX\<close> is worth 10 to its mover when two
  plies are left and 0 when one is left.
\<close>

definition stG :: MockState where "stG = leaf 5 10"
definition stC :: MockState where "stC = MockState 4 False (\<lambda>_. 0) [(tn 4, stG)]"
definition stX :: MockState where "stX = MockState 2 False (\<lambda>_. -1) [(tn 3, stC)]"
definition stY :: MockState where "stY = MockState 3 False (\<lambda>_. 1) [(tn 2, stX)]"
definition stR :: MockState where "stR = MockState 1 False (\<lambda>_. 0) [(tn 0, stX), (tn 1, stY)]"

lemmas stR_defs = stR_def stX_def stY_def stC_def stG_def

text \<open>
  With the table the entry stored for \<open>stX\<close> at depth 1 answers the probe for \<open>stX\<close>
  at depth 2, and the search returns the score 10; without the table it returns 0.
\<close>

lemma search_score_depends_on_table:
  "fst (search (mockConfig True True True) stR 3 freshNegamax) =
     Inr \<lparr>res_score = 10, res_turn = Some (tn 1)\<rparr>
   \<and> fst (search (mockConfig True True False) stR 3 freshNegamax) =
     Inr \<lparr>res_score = 0, res_turn = Some (tn 1)\<rparr>"
  by (simp add: search_mock mock_defs stR_defs cong: mock_congs)

subsection \<open>A second search on the same object\<close>

text \<open>
  The first search, three plies from \<open>s7R\<close>, leaves an \<open>UPPER\<close> entry of depth 1 for the
  state \<open>s7C\<close> in the table. The second search starts at \<open>s7C\<close> with one ply.
\<close>

definition s7L :: MockState where "s7L = leaf 5 3"
definition s7C :: MockState where "s7C = MockState 4 False (\<lambda>_. 0) [(tn 4, s7L)]"
definition s7B :: MockState where "s7B = MockState 3 False (\<lambda>_. 0) [(tn 3, s7C)]"
definition s7A :: MockState where "s7A = MockState 2 True (\<lambda>_. -5) []"
definition s7R :: MockState where "s7R = MockState 1 False (\<lambda>_. 0) [(tn 1, s7A), (tn 2, s7B)]"

lemmas s7_defs = s7R_def s7A_def s7B_def s7C_def s7L_def

definition afterFirstSearch :: Negamax where
  "afterFirstSearch = snd (search (mockConfig True True True) s7R 3 freshNegamax)"

lemma first_search:
  "search (mockConfig True True True) s7R 3 freshNegamax =
     (Inr \<lparr>res_score = 5, res_turn = Some (tn 1)\<rparr>, afterFirstSearch)"
  by (simp add: afterFirstSearch_def) (simp add: search_mock mock_defs s7_defs cong: mock_congs)

lemma afterFirstSearch_entry:
  "lookup (m_transpositionTable afterFirstSearch) (gs_getHash mockGame s7C) =
     Some \<lparr>entry_hash = 4, entry_turn = tn 4, entry_score = -3, entry_depth = 1,
           entry_boundType = UPPER\<rparr>"
  "m_abort afterFirstSearch = False" "abortAt afterFirstSearch = None"
  by (simp_all add: afterFirstSearch_def search_mock mock_defs s7_defs cong: mock_congs)

text \<open>
  C7. During the second search another thread calls \<open>abort()\<close>; the write lands after
  the first read of the flag, so the frame of the only child reads it as set and
  returns the sentinel. In the root the child's score 0 reaches the bound taken from
  the table, the loop is left by \<open>break\<close> before the flag is read, and \<open>search\<close>
  returns the score 0 with a turn instead of the sentinel.
\<close>

theorem search_abort_not_sentinel:
  "fst (search (mockConfig True True True) s7C 1 (afterFirstSearch\<lparr>abortAt := Some 1\<rparr>)) =
     Inr \<lparr>res_score = 0, res_turn = Some (tn 4)\<rparr>
   \<and> m_abort (snd (search (mockConfig True True True) s7C 1
                     (afterFirstSearch\<lparr>abortAt := Some 1\<rparr>))) = True
   \<and> fst (search (mockConfig True True True) s7C 1 (afterFirstSearch\<lparr>abortAt := Some 1\<rparr>))
       \<noteq> Inr sentinel"
  by (simp add: afterFirstSearch_def search_mock mock_defs s7_defs cong: mock_congs)

text \<open>
  C4, as stated, fails: entered with the window \<open>(MIN_SCORE, MAX_SCORE)\<close>, the root frame
  of a search from \<open>s7C\<close> lowers \<open>beta\<close> to the score -3 of the \<open>UPPER\<close> entry, finds the
  best score -3 and stores it as \<open>LOWER\<close>, although -3 lies strictly inside the window
  the frame was entered with.
\<close>

theorem stored_bound_uses_adjusted_beta:
  "fst (search_recurse (mockConfig True True True) s7C 0 1 (-1000000) 1000000 afterFirstSearch)
     = Inr \<lparr>res_score = -3, res_turn = Some (tn 4)\<rparr>
   \<and> map_option entry_boundType
        (lookup (m_transpositionTable
                  (snd (search_recurse (mockConfig True True True) s7C 0 1 (-1000000) 1000000
                          afterFirstSearch)))
           (gs_getHash mockGame s7C)) = Some LOWER
   \<and> boundFor (-3) (-1000000) 1000000 = EXACT"
  by (simp add: afterFirstSearch_def search_mock mock_defs s7_defs cong: mock_congs)

text \<open>
  C4, amended. A frame with the table enabled that is not terminal, reads no abort, is
  not answered by the probe and fails no assertion stores, under the state's hash, its
  best turn and score with the remaining plies as depth; the bound is \<open>UPPER\<close> when the
  score is at most the \<open>alpha\<close> the frame was entered with, else \<open>LOWER\<close> when it is at
  least the \<open>beta\<close> in force after the probe, else \<open>EXACT\<close>. That \<open>beta\<close> is the one
  the frame was entered with unless the probe found an \<open>UPPER\<close> entry of sufficient
  depth, which lowers it to the entry's score.
\<close>

theorem stored_entry_classification:
  assumes tt: "TRANSPOSITION_TABLES_ENABLED cfg"
    and live: "\<not> gs_isGameOver (game cfg) state" "depth < maxDepth"
    and na: "noAbort ng"
    and probe: "probeTable cfg ng state (maxDepth - depth) alpha beta = Inr (alpha', beta')"
    and res: "search_recurse cfg state depth maxDepth alpha beta ng = (Inr r, ng')"
  shows "(\<exists>t. res_turn r = Some t \<and>
            lookup (m_transpositionTable ng') (gs_getHash (game cfg) state) =
              Some \<lparr>entry_hash = gs_getHash (game cfg) state, entry_turn = t,
                    entry_score = res_score r, entry_depth = maxDepth - depth,
                    entry_boundType =
                      (if res_score r \<le> alpha then UPPER
                       else if res_score r \<ge> beta' then LOWER else EXACT)\<rparr>)
         \<and> beta' =
             (case lookup (m_transpositionTable ng) (gs_getHash (game cfg) state) of
                None \<Rightarrow> beta
              | Some e \<Rightarrow> if maxDepth - depth \<le> entry_depth e \<and> isUpperBound e
                          then min beta (entry_score e) else beta)"
proof -
  let ?rec = "\<lambda>newState a b ng'. search_recurse cfg newState (depth + 1) maxDepth a b ng'"
  let ?h = "gs_getHash (game cfg) state"
  have rd: "readAbort ng = (False, ng)"
    using na by (rule readAbort_noAbort)
  obtain lres ng1 where loop:
    "optionLoop (AB_CUTOFF_ENABLED cfg) ?rec (considerOptions cfg ng state depth)
       \<lparr>res_score = MIN_SCORE cfg, res_turn = None\<rparr> alpha' beta' ng = (lres, ng1)"
    by (cases "optionLoop (AB_CUTOFF_ENABLED cfg) ?rec (considerOptions cfg ng state depth)
       \<lparr>res_score = MIN_SCORE cfg, res_turn = None\<rparr> alpha' beta' ng")
  have "noAbort ng1 \<and> lres \<noteq> Inr None"
  proof (rule optionLoop_noAbort [OF _ na loop])
    fix st a b ng r ng'
    assume "noAbort ng" "?rec st a b ng = (r, ng')"
    then show "noAbort ng'" by (rule search_recurse_noAbort)
  qed
  then have notNone: "lres \<noteq> Inr None" by blast
  from res rd live probe loop notNone tt
  obtain t where t: "res_turn r = Some t"
    and ng': "ng' = ng1\<lparr>m_transpositionTable :=
                 maybeUpdate \<lparr>entry_hash = ?h, entry_turn = t, entry_score = res_score r,
                    entry_depth = maxDepth - depth,
                    entry_boundType = boundFor (res_score r) alpha beta'\<rparr>
                   (m_transpositionTable ng1)\<rparr>"
    by (auto simp: search_recurse.simps [of cfg state] split: sum.splits option.splits if_splits)
  have stored: "lookup (m_transpositionTable ng') ?h =
      Some \<lparr>entry_hash = ?h, entry_turn = t, entry_score = res_score r,
            entry_depth = maxDepth - depth,
            entry_boundType = boundFor (res_score r) alpha beta'\<rparr>"
    unfolding ng' using lookup_maybeUpdate [of "\<lparr>entry_hash = ?h, entry_turn = t,
        entry_score = res_score r, entry_depth = maxDepth - depth,
        entry_boundType = boundFor (res_score r) alpha beta'\<rparr>" "m_transpositionTable ng1"]
    by simp
  have beta': "beta' =
      (case lookup (m_transpositionTable ng) ?h of
         None \<Rightarrow> beta
       | Some e \<Rightarrow> if maxDepth - depth \<le> entry_depth e \<and> isUpperBound e
                   then min beta (entry_score e) else beta)"
    using probe tt
    by (auto simp: probeTable_def Let_def isUpperBound_def isLowerBound_def isExactBound_def
        split: option.splits if_splits) (meson BoundType.exhaust)+
  from t stored beta' show ?thesis
    by (simp add: boundFor_def)
qed

theorem stored_entry_classification_witness:
  "fst (search_recurse (mockConfig True True True) s7C 0 1 (-1000000) 1000000 afterFirstSearch)
     = Inr \<lparr>res_score = -3, res_turn = Some (tn 4)\<rparr>
   \<and> lookup (m_transpositionTable
               (snd (search_recurse (mockConfig True True True) s7C 0 1 (-1000000) 1000000
                       afterFirstSearch)))
        (gs_getHash mockGame s7C)
      = Some \<lparr>entry_hash = 4, entry_turn = tn 4, entry_score = -3, entry_depth = 1,
              entry_boundType = LOWER\<rparr>"
proof -
  let ?cfg = "mockConfig True True True"
  let ?out = "search_recurse ?cfg s7C 0 1 (-1000000) 1000000 afterFirstSearch"
  have r: "fst ?out = Inr \<lparr>res_score = -3, res_turn = Some (tn 4)\<rparr>"
    by (simp add: afterFirstSearch_def search_mock mock_defs s7_defs cong: mock_congs)
  then have out: "?out = (Inr \<lparr>res_score = -3, res_turn = Some (tn 4)\<rparr>, snd ?out)"
    by (simp add: prod_eq_iff)
  have tt: "TRANSPOSITION_TABLES_ENABLED ?cfg" and g: "game ?cfg = mockGame"
    by (simp_all add: mockConfig_def)
  have nt: "\<not> gs_isGameOver (game ?cfg) s7C"
    by (simp add: mockConfig_def mockGame_def s7C_def)
  have na: "noAbort afterFirstSearch"
    by (simp add: noAbort_def afterFirstSearch_entry)
  have probe: "probeTable ?cfg afterFirstSearch s7C (1 - 0) (-1000000) 1000000
                 = Inr (-1000000, -3)"
    using afterFirstSearch_entry(1)
    by (simp add: probeTable_def tt g isExactBound_def isLowerBound_def mockConfig_def)
  from stored_entry_classification [OF tt nt _ na probe out]
  show ?thesis
    using r by (simp add: g mockGame_def s7C_def)
qed

subsection \<open>The ordering estimate\<close>

text \<open>A table holding one entry of the given bound type for the state \<open>stG\<close> (hash 5).\<close>

definition oneEntry :: "BoundType \<Rightarrow> Negamax" where
  "oneEntry b =
     freshNegamax\<lparr>m_transpositionTable :=
       maybeUpdate \<lparr>entry_hash = 5, entry_turn = tn 0, entry_score = 7, entry_depth = 1,
                    entry_boundType = b\<rparr> (emptyTable 1048576)\<rparr>"

lemmas estimate_defs = oneEntry_def mock_defs stG_def

text \<open>
  C5, as stated, fails for an entry of the bound type \<open>UPPER\<close>: the stored score is 7,
  the estimate is \<open>-MIN_SCORE\<close> and not -7.
\<close>

theorem estimate_upper_entry:
  "map_option entry_score
     (lookup (m_transpositionTable (oneEntry UPPER)) (gs_getHash mockGame stG)) = Some 7
   \<and> estimateScoreFor (mockConfig True True True) (oneEntry UPPER) stG 1 = 1000000
   \<and> estimateScoreFor (mockConfig True True True) (oneEntry UPPER) stG 1 \<noteq> - 7"
  by (simp add: estimate_defs)

text \<open>
  C5, amended. With the table enabled the estimate is the negation of the child's
  current score when the table has no entry for the child's hash, the negation of the
  stored score when it has an \<open>EXACT\<close> or \<open>LOWER\<close> entry, and \<open>-MIN_SCORE\<close> when it has an
  \<open>UPPER\<close> entry; with the table disabled it is always the negation of the child's
  current score.
\<close>

theorem estimateScoreFor_cases:
  "(TRANSPOSITION_TABLES_ENABLED cfg
      \<and> lookup (m_transpositionTable ng) (gs_getHash (game cfg) state) = None
    \<longrightarrow> estimateScoreFor cfg ng state depth = - gs_getScore (game cfg) state depth)
   \<and> (TRANSPOSITION_TABLES_ENABLED cfg
      \<and> lookup (m_transpositionTable ng) (gs_getHash (game cfg) state) = Some e
      \<and> entry_boundType e \<noteq> UPPER
    \<longrightarrow> estimateScoreFor cfg ng state depth = - entry_score e)
   \<and> (TRANSPOSITION_TABLES_ENABLED cfg
      \<and> lookup (m_transpositionTable ng) (gs_getHash (game cfg) state) = Some e
      \<and> entry_boundType e = UPPER
    \<longrightarrow> estimateScoreFor cfg ng state depth = - MIN_SCORE cfg)
   \<and> (\<not> TRANSPOSITION_TABLES_ENABLED cfg
    \<longrightarrow> estimateScoreFor cfg ng state depth = - gs_getScore (game cfg) state depth)"
  by (simp add: estimateScoreFor_def isUpperBound_def)

theorem estimateScoreFor_cases_witness:
  "estimateScoreFor (mockConfig True True True) freshNegamax stG 1 = - 10
   \<and> estimateScoreFor (mockConfig True True True) (oneEntry EXACT) stG 1 = - 7
   \<and> estimateScoreFor (mockConfig True True True) (oneEntry LOWER) stG 1 = - 7
   \<and> estimateScoreFor (mockConfig True True True) (oneEntry UPPER) stG 1 = 1000000
   \<and> estimateScoreFor (mockConfig True True False) (oneEntry EXACT) stG 1 = - 10"
proof -
  let ?cfg = "mockConfig True True True"
  let ?e = "\<lambda>b. \<lparr>entry_hash = 5, entry_turn = tn 0, entry_score = 7, entry_depth = 1,
                  entry_boundType = b\<rparr>"
  have tt: "TRANSPOSITION_TABLES_ENABLED ?cfg" "\<not> TRANSPOSITION_TABLES_ENABLED (mockConfig True True False)"
    and c: "MIN_SCORE ?cfg = -1000000" "game ?cfg = mockGame"
       "game (mockConfig True True False) = mockGame"
    by (simp_all add: mockConfig_def)
  have sc: "gs_getScore mockGame stG d = 10" for d
    by (simp add: mockGame_def stG_def leaf_def)
  have none: "lookup (m_transpositionTable freshNegamax) (gs_getHash mockGame stG) = None"
    by (simp add: estimate_defs)
  have some: "lookup (m_transpositionTable (oneEntry b)) (gs_getHash mockGame stG) = Some (?e b)" for b
    by (simp add: estimate_defs)
  note th = estimateScoreFor_cases [where depth = 1 and state = stG]
  from th [of ?cfg freshNegamax] th [of ?cfg "oneEntry EXACT" "?e EXACT"]
    th [of ?cfg "oneEntry LOWER" "?e LOWER"] th [of ?cfg "oneEntry UPPER" "?e UPPER"]
    th [of "mockConfig True True False" "oneEntry EXACT"]
  show ?thesis
    using tt none some by (simp add: c sc)
qed


section \<open>The search without the table\<close>









lemma negResult_simps [simp]:
  "res_score (negResult r) = - res_score r" "res_turn (negResult r) = res_turn r"
  by (simp_all add: negResult_def)











subsection \<open>A game that separates the toggles\<close>









subsection \<open>An aborted search and the next one\<close>



end
